theory Spec2Isabelle
  imports Complex_Main "HOL-Library.Word" "HOL-Library.Monad_Syntax"
begin

section \<open>Data model of ggml.c\<close>

text \<open>
  The embedding follows \<^verbatim>\<open>src/src/ggml.c\<close> on a 64-bit target: \<^verbatim>\<open>size_t\<close> and pointers are
  64-bit words, \<^verbatim>\<open>GGML_MEM_ALIGN\<close> is 16 and \<^verbatim>\<open>sizeof(struct ggml_object)\<close> is 32.
  A pointer into the arena is the byte offset from \<^verbatim>\<open>ctx->mem_buffer\<close>; a nullable pointer is
  an \<open>option\<close>. C \<^verbatim>\<open>int\<close> values are HOL integers (signed overflow is undefined in C and is
  not given a meaning here); they are converted with \<open>word_of_int\<close> where the C code converts
  them to \<^verbatim>\<open>size_t\<close>. F32 values are real numbers: rounding, infinities and NaN are outside
  the model, so every statement about values is about the exact arithmetic the kernels spell
  out.

  \<^verbatim>\<open>assert\<close> is modelled as compiled in (no \<^verbatim>\<open>NDEBUG\<close>): a violated \<^verbatim>\<open>assert\<close> ends the run
  with \<open>Assert_failed\<close>, a violated \<^verbatim>\<open>GGML_ASSERT\<close> (which calls \<^verbatim>\<open>abort\<close> in every build) with
  \<open>GGML_assert_failed\<close>.
\<close>

type_synonym size_t = "64 word"
type_synonym handle = "64 word"

datatype error =
    Assert_failed
  | GGML_assert_failed
  | Null_deref
  | Out_of_bounds
  | Not_modelled

datatype ggml_type =
    GGML_TYPE_I8
  | GGML_TYPE_I16
  | GGML_TYPE_I32
  | GGML_TYPE_F16
  | GGML_TYPE_F32
  | GGML_TYPE_COUNT

datatype ggml_op =
    GGML_OP_NONE
  | GGML_OP_DUP
  | GGML_OP_ADD
  | GGML_OP_SUB
  | GGML_OP_MUL
  | GGML_OP_DIV
  | GGML_OP_SQR
  | GGML_OP_SQRT
  | GGML_OP_SUM
  | GGML_OP_MEAN
  | GGML_OP_REPEAT
  | GGML_OP_ABS
  | GGML_OP_SGN
  | GGML_OP_NEG
  | GGML_OP_STEP
  | GGML_OP_RELU
  | GGML_OP_GELU
  | GGML_OP_NORM
  | GGML_OP_MUL_MAT
  | GGML_OP_SCALE
  | GGML_OP_CPY
  | GGML_OP_RESHAPE
  | GGML_OP_VIEW
  | GGML_OP_PERMUTE
  | GGML_OP_TRANSPOSE
  | GGML_OP_GET_ROWS
  | GGML_OP_DIAG_MASK_INF
  | GGML_OP_SOFT_MAX
  | GGML_OP_ROPE
  | GGML_OP_CONV_1D_1S
  | GGML_OP_CONV_1D_2S
  | GGML_OP_FLASH_ATTN
  | GGML_OP_FLASH_FF
  | GGML_OP_COUNT

text \<open>
  \<^verbatim>\<open>struct ggml_tensor\<close> is declared in \<^verbatim>\<open>ggml.h\<close>; the fields are the ones the initialiser in
  \<^verbatim>\<open>ggml_new_tensor_impl\<close> lists, without the performance counters and the padding.
\<close>

record ggml_tensor =
  type :: ggml_type
  n_dims :: int
  ne :: "int list"
  nb :: "size_t list"
  op :: ggml_op
  is_param :: bool
  grad :: "handle option"
  src0 :: "handle option"
  src1 :: "handle option"
  opt :: "handle option list"
  n_tasks :: int
  data :: size_t

text \<open>
  \<^verbatim>\<open>struct ggml_object\<close>: the \<^verbatim>\<open>next\<close> pointer is the order of the list \<open>objects\<close> of the context,
  \<^verbatim>\<open>objects_begin\<close> its first and \<^verbatim>\<open>objects_end\<close> its last element.
\<close>

record ggml_object =
  obj_offset :: size_t
  obj_size :: size_t

text \<open>
  \<^verbatim>\<open>struct ggml_context\<close>. The contents of \<^verbatim>\<open>mem_buffer\<close> are kept typed: the tensor headers
  (\<open>tensors\<close>, by address), the F32 cells (\<open>f32\<close>) and the I32 cells (\<open>i32\<close>), by byte address.
\<close>

record ggml_context =
  mem_size :: size_t
  mem_buffer_owned :: bool
  n_objects :: int
  objects :: "ggml_object list"
  tensors :: "handle \<Rightarrow> ggml_tensor option"
  f32 :: "size_t \<Rightarrow> real"
  i32 :: "size_t \<Rightarrow> int"

type_synonym 'a result = "(error + 'a) \<times> ggml_context"

definition GGML_MEM_ALIGN :: size_t where
  "GGML_MEM_ALIGN = 16"

definition GGML_OBJECT_SIZE :: size_t where
  "GGML_OBJECT_SIZE = 32"

definition GGML_MAX_DIMS :: nat where
  "GGML_MAX_DIMS = 4"

text \<open>Modelled from the spec: \<^verbatim>\<open>GGML_MAX_OPT\<close> is a macro of \<^verbatim>\<open>ggml.h\<close>; the spec's data model
  gives the optional inputs as \<^verbatim>\<open>opt[0..3]\<close>.\<close>

definition GGML_MAX_OPT :: nat where
  "GGML_MAX_OPT = 4"

fun GGML_TYPE_SIZE :: "ggml_type \<Rightarrow> size_t option" where
  "GGML_TYPE_SIZE GGML_TYPE_I8 = Some 1"
| "GGML_TYPE_SIZE GGML_TYPE_I16 = Some 2"
| "GGML_TYPE_SIZE GGML_TYPE_I32 = Some 4"
| "GGML_TYPE_SIZE GGML_TYPE_F16 = Some 2"
| "GGML_TYPE_SIZE GGML_TYPE_F32 = Some 4"
| "GGML_TYPE_SIZE GGML_TYPE_COUNT = None"

definition bind :: "'a result \<Rightarrow> ('a \<Rightarrow> ggml_context \<Rightarrow> 'b result) \<Rightarrow> 'b result" where
  "bind r f = (case r of (Inl e, c) \<Rightarrow> (Inl e, c) | (Inr v, c) \<Rightarrow> f v c)"

definition bind' :: "(ggml_context \<Rightarrow> unit result) \<Rightarrow> (ggml_context \<Rightarrow> 'b result) \<Rightarrow> ggml_context \<Rightarrow> 'b result" where
  "bind' f g ctx = bind (f ctx) (\<lambda>_. g)"

definition get_tensor :: "ggml_context \<Rightarrow> handle \<Rightarrow> (ggml_tensor \<Rightarrow> 'a result) \<Rightarrow> 'a result" where
  "get_tensor ctx h f = (case tensors ctx h of None \<Rightarrow> (Inl Null_deref, ctx) | Some t \<Rightarrow> f t)"

definition upd_tensor :: "handle \<Rightarrow> (ggml_tensor \<Rightarrow> ggml_tensor) \<Rightarrow> ggml_context \<Rightarrow> ggml_context" where
  "upd_tensor h f ctx =
     (case tensors ctx h of None \<Rightarrow> ctx | Some t \<Rightarrow> ctx\<lparr>tensors := (tensors ctx)(h \<mapsto> f t)\<rparr>)"

subsection \<open>Shape predicates\<close>

definition ggml_nelements :: "ggml_tensor \<Rightarrow> int" where
  "ggml_nelements t = ne t ! 0 * ne t ! 1 * ne t ! 2 * ne t ! 3"

definition ggml_nrows :: "ggml_tensor \<Rightarrow> int" where
  "ggml_nrows t = ne t ! 1 * ne t ! 2 * ne t ! 3"

definition ggml_is_scalar :: "ggml_tensor \<Rightarrow> bool" where
  "ggml_is_scalar t \<longleftrightarrow> ne t ! 0 = 1 \<and> ne t ! 1 = 1 \<and> ne t ! 2 = 1 \<and> ne t ! 3 = 1"

definition ggml_can_mul_mat :: "ggml_tensor \<Rightarrow> ggml_tensor \<Rightarrow> bool" where
  "ggml_can_mul_mat t0 t1 \<longleftrightarrow>
     ne t0 ! 0 = ne t1 ! 0 \<and> ne t0 ! 2 = ne t1 ! 2 \<and> ne t0 ! 3 = ne t1 ! 3"

definition ggml_is_contiguous :: "ggml_tensor \<Rightarrow> bool" where
  "ggml_is_contiguous t \<longleftrightarrow>
     Some (nb t ! 0) = GGML_TYPE_SIZE (type t) \<and>
     nb t ! 1 = nb t ! 0 * word_of_int (ne t ! 0) \<and>
     nb t ! 2 = nb t ! 1 * word_of_int (ne t ! 1) \<and>
     nb t ! 3 = nb t ! 2 * word_of_int (ne t ! 2)"

definition ggml_are_same_shape :: "ggml_tensor \<Rightarrow> ggml_tensor \<Rightarrow> bool" where
  "ggml_are_same_shape t0 t1 \<longleftrightarrow>
     ne t0 ! 0 = ne t1 ! 0 \<and> ne t0 ! 1 = ne t1 ! 1 \<and>
     ne t0 ! 2 = ne t1 ! 2 \<and> ne t0 ! 3 = ne t1 ! 3"

text \<open>C's \<^verbatim>\<open>%\<close> on \<^verbatim>\<open>int\<close> truncates towards zero; a zero divisor is undefined and is reported as
  a failed check here.\<close>

definition c_rem :: "int \<Rightarrow> int \<Rightarrow> int" where
  "c_rem a b = sgn a * (\<bar>a\<bar> mod \<bar>b\<bar>)"

definition c_div :: "int \<Rightarrow> int \<Rightarrow> int" where
  "c_div a b = sgn a * sgn b * (\<bar>a\<bar> div \<bar>b\<bar>)"

definition divides_c :: "int \<Rightarrow> int \<Rightarrow> bool" where
  "divides_c a b \<longleftrightarrow> a \<noteq> 0 \<and> c_rem b a = 0"

definition ggml_can_repeat :: "ggml_tensor \<Rightarrow> ggml_tensor \<Rightarrow> bool" where
  "ggml_can_repeat t0 t1 \<longleftrightarrow>
     divides_c (ne t0 ! 0) (ne t1 ! 0) \<and> divides_c (ne t0 ! 1) (ne t1 ! 1) \<and>
     divides_c (ne t0 ! 2) (ne t1 ! 2) \<and> divides_c (ne t0 ! 3) (ne t1 ! 3)"

text \<open>The data model's rule for extents: one to four dimensions, the extents from \<open>n_dims\<close> on
  equal to 1.\<close>

definition dims_ok :: "ggml_tensor \<Rightarrow> bool" where
  "dims_ok t \<longleftrightarrow>
     1 \<le> n_dims t \<and> n_dims t \<le> 4 \<and> length (ne t) = 4 \<and>
     (n_dims t < 2 \<longrightarrow> ne t ! 1 = 1) \<and> (n_dims t < 3 \<longrightarrow> ne t ! 2 = 1) \<and>
     (n_dims t < 4 \<longrightarrow> ne t ! 3 = 1)"

section \<open>Arena and tensor store\<close>

record ggml_state =
  contexts_used :: "bool list"
  first_time :: bool

record ggml_init_params =
  ip_mem_size :: size_t
  ip_mem_buffer :: "((size_t \<Rightarrow> real) \<times> (size_t \<Rightarrow> int)) option"

text \<open>
  \<^verbatim>\<open>ggml_init\<close>: the slot table \<^verbatim>\<open>g_state.contexts\<close> is the list of its \<^verbatim>\<open>used\<close> flags (its
  length is \<^verbatim>\<open>GGML_MAX_CONTEXTS\<close>, a macro of \<^verbatim>\<open>ggml.h\<close>). \<open>fresh\<close> is the content of the block
  \<^verbatim>\<open>malloc\<close> returns when the caller passes no buffer. The result is the slot index with the
  new context, or \<open>None\<close> for the NULL return. The spin on \<^verbatim>\<open>g_state_barrier\<close> and the one-time
  fill of the FP16 tables are not modelled.
\<close>

fun find_unused :: "bool list \<Rightarrow> nat \<Rightarrow> nat option" where
  "find_unused [] i = None"
| "find_unused (u # us) i = (if \<not> u then Some i else find_unused us (Suc i))"

definition fresh_context :: "ggml_init_params \<Rightarrow> (size_t \<Rightarrow> real) \<times> (size_t \<Rightarrow> int) \<Rightarrow> ggml_context" where
  "fresh_context params fresh =
     (let buf = (case ip_mem_buffer params of None \<Rightarrow> fresh | Some b \<Rightarrow> b)
      in \<lparr>mem_size = ip_mem_size params,
          mem_buffer_owned = (ip_mem_buffer params = None),
          n_objects = 0,
          objects = [],
          tensors = Map.empty,
          f32 = fst buf,
          i32 = snd buf\<rparr>)"

definition ggml_init ::
  "ggml_state \<Rightarrow> (size_t \<Rightarrow> real) \<times> (size_t \<Rightarrow> int) \<Rightarrow> ggml_init_params \<Rightarrow>
     ggml_state \<times> (nat \<times> ggml_context) option" where
  "ggml_init gs fresh params =
     (let used = (if first_time gs then map (\<lambda>_. False) (contexts_used gs) else contexts_used gs);
          gs1 = gs\<lparr>contexts_used := used, first_time := False\<rparr>
      in case find_unused used 0 of
           None \<Rightarrow> (gs1, None)
         | Some i \<Rightarrow> (gs1\<lparr>contexts_used := used[i := True]\<rparr>, Some (i, fresh_context params fresh)))"

definition objects_end :: "ggml_context \<Rightarrow> ggml_object option" where
  "objects_end ctx = (if objects ctx = [] then None else Some (last (objects ctx)))"

definition ggml_used_mem :: "ggml_context \<Rightarrow> error + size_t" where
  "ggml_used_mem ctx =
     (case objects_end ctx of
        None \<Rightarrow> Inl Null_deref
      | Some ob \<Rightarrow> Inr (obj_offset ob + obj_size ob))"

definition cur_end :: "ggml_context \<Rightarrow> size_t" where
  "cur_end ctx =
     (let cur_offset = (case objects_end ctx of None \<Rightarrow> 0 | Some ob \<Rightarrow> obj_offset ob);
          cur_size = (case objects_end ctx of None \<Rightarrow> 0 | Some ob \<Rightarrow> obj_size ob)
      in cur_offset + cur_size)"

text \<open>
  The first half of \<^verbatim>\<open>ggml_new_tensor_impl\<close>: the value of \<^verbatim>\<open>size_needed\<close> at the capacity
  check. \<open>tsz\<close> is \<^verbatim>\<open>sizeof(struct ggml_tensor)\<close>, fixed by the declaration in \<^verbatim>\<open>ggml.h\<close>.
  The products are \<^verbatim>\<open>size_t\<close> products and wrap around.
\<close>

definition size_needed ::
  "size_t \<Rightarrow> ggml_type \<Rightarrow> int \<Rightarrow> int list \<Rightarrow> size_t option \<Rightarrow> error + size_t" where
  "size_needed tsz ty nd nes dat =
     (case dat of
        Some _ \<Rightarrow> Inr tsz
      | None \<Rightarrow>
          (case GGML_TYPE_SIZE ty of
             None \<Rightarrow> Inl Out_of_bounds
           | Some ts \<Rightarrow>
               if length nes < nat nd then Inl Out_of_bounds
               else
                 (let s = foldl (\<lambda>s k. s * word_of_int k) ts (take (nat nd) nes);
                      s' = ((s + GGML_MEM_ALIGN - 1) div GGML_MEM_ALIGN) * GGML_MEM_ALIGN
                  in Inr (s' + tsz))))"

definition ggml_aligned :: "size_t \<Rightarrow> bool" where
  "ggml_aligned p \<longleftrightarrow> p mod GGML_MEM_ALIGN = 0"

fun strides :: "size_t \<Rightarrow> int list \<Rightarrow> size_t list" where
  "strides s [] = []"
| "strides s (k # ks) = s # strides (s * word_of_int k) ks"

definition ggml_new_tensor_impl ::
  "size_t \<Rightarrow> ggml_context \<Rightarrow> ggml_type \<Rightarrow> int \<Rightarrow> int list \<Rightarrow> size_t option \<Rightarrow> handle result" where
  "ggml_new_tensor_impl tsz ctx ty nd nes dat =
     (case size_needed tsz ty nd nes dat of
        Inl e \<Rightarrow> (Inl e, ctx)
      | Inr sz \<Rightarrow>
          if cur_end ctx + sz + GGML_OBJECT_SIZE > mem_size ctx then (Inl Assert_failed, ctx)
          else
            (let obj_new = \<lparr>obj_offset = cur_end ctx + GGML_OBJECT_SIZE, obj_size = sz\<rparr>;
                 ctx1 = ctx\<lparr>objects := objects ctx @ [obj_new]\<rparr>;
                 res = obj_offset obj_new;
                 dat' = (case dat of None \<Rightarrow> res + tsz | Some d \<Rightarrow> d)
             in if \<not> ggml_aligned res then (Inl Assert_failed, ctx1)
                else if \<not> ggml_aligned dat' then (Inl Assert_failed, ctx1)
                else if GGML_MAX_DIMS < nat nd \<or> length nes < nat nd then (Inl Out_of_bounds, ctx1)
                else
                  (case GGML_TYPE_SIZE ty of
                     None \<Rightarrow> (Inl Out_of_bounds, ctx1)
                   | Some ts \<Rightarrow>
                       (let ne' = take (nat nd) nes @ replicate (GGML_MAX_DIMS - nat nd) 1;
                            t = \<lparr>type = ty, n_dims = nd, ne = ne', nb = strides ts ne',
                                 op = GGML_OP_NONE, is_param = False, grad = None,
                                 src0 = None, src1 = None,
                                 opt = replicate GGML_MAX_OPT None,
                                 n_tasks = 0, data = dat'\<rparr>
                        in (Inr res,
                            ctx1\<lparr>tensors := (tensors ctx1)(res \<mapsto> t),
                                 n_objects := n_objects ctx1 + 1\<rparr>)))))"

definition ggml_new_tensor ::
  "size_t \<Rightarrow> ggml_context \<Rightarrow> ggml_type \<Rightarrow> int \<Rightarrow> int list \<Rightarrow> handle result" where
  "ggml_new_tensor tsz ctx ty nd nes = ggml_new_tensor_impl tsz ctx ty nd nes None"

definition ggml_new_tensor_1d :: "size_t \<Rightarrow> ggml_context \<Rightarrow> ggml_type \<Rightarrow> int \<Rightarrow> handle result" where
  "ggml_new_tensor_1d tsz ctx ty ne0 = ggml_new_tensor tsz ctx ty 1 [ne0]"

definition ggml_new_tensor_2d ::
  "size_t \<Rightarrow> ggml_context \<Rightarrow> ggml_type \<Rightarrow> int \<Rightarrow> int \<Rightarrow> handle result" where
  "ggml_new_tensor_2d tsz ctx ty ne0 ne1 = ggml_new_tensor tsz ctx ty 2 [ne0, ne1]"

definition ggml_new_tensor_3d ::
  "size_t \<Rightarrow> ggml_context \<Rightarrow> ggml_type \<Rightarrow> int \<Rightarrow> int \<Rightarrow> int \<Rightarrow> handle result" where
  "ggml_new_tensor_3d tsz ctx ty ne0 ne1 ne2 = ggml_new_tensor tsz ctx ty 3 [ne0, ne1, ne2]"

definition ggml_new_tensor_4d ::
  "size_t \<Rightarrow> ggml_context \<Rightarrow> ggml_type \<Rightarrow> int \<Rightarrow> int \<Rightarrow> int \<Rightarrow> int \<Rightarrow> handle result" where
  "ggml_new_tensor_4d tsz ctx ty ne0 ne1 ne2 ne3 = ggml_new_tensor tsz ctx ty 4 [ne0, ne1, ne2, ne3]"

definition ggml_dup_tensor :: "size_t \<Rightarrow> ggml_context \<Rightarrow> handle \<Rightarrow> handle result" where
  "ggml_dup_tensor tsz ctx src =
     get_tensor ctx src (\<lambda>s. ggml_new_tensor_impl tsz ctx (type s) (n_dims s) (ne s) None)"

definition ggml_view_tensor :: "size_t \<Rightarrow> ggml_context \<Rightarrow> handle \<Rightarrow> handle result" where
  "ggml_view_tensor tsz ctx src =
     get_tensor ctx src (\<lambda>s. ggml_new_tensor_impl tsz ctx (type s) (n_dims s) (ne s) (Some (data s)))"

subsection \<open>Writing values\<close>

text \<open>\<^verbatim>\<open>ggml_vec_set_f32\<close>: \<^verbatim>\<open>for (i = 0; i < n; ++i) x[i] = v\<close> on the F32 cells from address \<open>x\<close>.\<close>

definition ggml_vec_set_f32 :: "int \<Rightarrow> size_t \<Rightarrow> real \<Rightarrow> (size_t \<Rightarrow> real) \<Rightarrow> (size_t \<Rightarrow> real)" where
  "ggml_vec_set_f32 n x v m = fold (\<lambda>i m. m(x + 4 * of_nat i := v)) [0..<nat n] m"

text \<open>\<^verbatim>\<open>ggml_set_f32\<close>, the F32 case; the integer and F16 cases store converted values and are
  not modelled.\<close>

definition ggml_set_f32 :: "ggml_context \<Rightarrow> handle \<Rightarrow> real \<Rightarrow> handle result" where
  "ggml_set_f32 ctx tensor v =
     get_tensor ctx tensor (\<lambda>t.
       case type t of
         GGML_TYPE_F32 \<Rightarrow>
           if nb t ! 0 \<noteq> 4 then (Inl Assert_failed, ctx)
           else (Inr tensor,
                 ctx\<lparr>f32 := fold (\<lambda>i m. ggml_vec_set_f32 (ne t ! 0) (data t + of_nat i * (nb t ! 1)) v m)
                                  [0..<nat (ggml_nrows t)] (f32 ctx)\<rparr>)
       | GGML_TYPE_COUNT \<Rightarrow> (Inl Assert_failed, ctx)
       | _ \<Rightarrow> (Inl Not_modelled, ctx))"

definition ggml_new_f32 :: "size_t \<Rightarrow> ggml_context \<Rightarrow> real \<Rightarrow> handle result" where
  "ggml_new_f32 tsz ctx v =
     bind (ggml_new_tensor_1d tsz ctx GGML_TYPE_F32 1) (\<lambda>result c. ggml_set_f32 c result v)"

text \<open>\<^verbatim>\<open>ggml_set_zero\<close> is a \<^verbatim>\<open>memset\<close> of \<^verbatim>\<open>ggml_nbytes\<close> bytes: every 4-byte cell of the
  payload reads as 0 afterwards, as F32 and as I32. (\<^verbatim>\<open>ggml_nelements\<close> is an \<^verbatim>\<open>int\<close> product,
  converted to \<^verbatim>\<open>size_t\<close> for the multiplication.)\<close>

definition ggml_nbytes :: "ggml_tensor \<Rightarrow> size_t option" where
  "ggml_nbytes t = map_option (\<lambda>ts. word_of_int (ggml_nelements t) * ts) (GGML_TYPE_SIZE (type t))"

definition ggml_set_zero :: "ggml_context \<Rightarrow> handle \<Rightarrow> handle result" where
  "ggml_set_zero ctx tensor =
     get_tensor ctx tensor (\<lambda>t.
       case ggml_nbytes t of
         None \<Rightarrow> (Inl Out_of_bounds, ctx)
       | Some n \<Rightarrow>
           (let cells = map (\<lambda>i. data t + 4 * of_nat i) [0..<unat n div 4]
            in (Inr tensor,
                ctx\<lparr>f32 := fold (\<lambda>a m. m(a := 0)) cells (f32 ctx),
                     i32 := fold (\<lambda>a m. m(a := 0)) cells (i32 ctx)\<rparr>)))"

section \<open>Graph builder: operator constructors\<close>

text \<open>
  Every constructor ends with the same four assignments,
  \<^verbatim>\<open>result->op = OP; result->grad = is_node ? ggml_dup_tensor(ctx, result) : NULL;
  result->src0 = a; result->src1 = b;\<close> which is \<open>set_node\<close>.
\<close>

definition new_grad :: "size_t \<Rightarrow> bool \<Rightarrow> handle \<Rightarrow> ggml_context \<Rightarrow> (handle option) result" where
  "new_grad tsz is_node result ctx =
     (if is_node then bind (ggml_dup_tensor tsz ctx result) (\<lambda>g c. (Inr (Some g), c))
      else (Inr None, ctx))"

definition set_node ::
  "size_t \<Rightarrow> ggml_op \<Rightarrow> bool \<Rightarrow> handle option \<Rightarrow> handle option \<Rightarrow> handle \<Rightarrow> ggml_context \<Rightarrow>
     handle result" where
  "set_node tsz opc is_node s0 s1 result ctx =
     bind (new_grad tsz is_node result (upd_tensor result (\<lambda>t. t\<lparr>op := opc\<rparr>) ctx)) (\<lambda>g c.
       (Inr result, upd_tensor result (\<lambda>t. t\<lparr>grad := g, src0 := s0, src1 := s1\<rparr>) c))"

text \<open>The body shared by \<^verbatim>\<open>ggml_dup_impl\<close>, \<^verbatim>\<open>ggml_sqr_impl\<close>, \<^verbatim>\<open>ggml_sqrt_impl\<close>,
  \<^verbatim>\<open>ggml_abs_impl\<close>, \<^verbatim>\<open>ggml_sgn_impl\<close>, \<^verbatim>\<open>ggml_neg_impl\<close>, \<^verbatim>\<open>ggml_step_impl\<close>,
  \<^verbatim>\<open>ggml_relu_impl\<close> and \<^verbatim>\<open>ggml_gelu_impl\<close>, which differ in the opcode only.\<close>

definition ggml_unary_impl ::
  "ggml_op \<Rightarrow> size_t \<Rightarrow> ggml_context \<Rightarrow> handle \<Rightarrow> bool \<Rightarrow> handle result" where
  "ggml_unary_impl opc tsz ctx a inplace =
     get_tensor ctx a (\<lambda>ta.
       let is_node = (\<not> inplace \<and> grad ta \<noteq> None)
       in bind (if inplace then ggml_view_tensor tsz ctx a else ggml_dup_tensor tsz ctx a)
            (set_node tsz opc is_node (Some a) None))"

definition ggml_dup_impl where "ggml_dup_impl = ggml_unary_impl GGML_OP_DUP"
definition ggml_sqr_impl where "ggml_sqr_impl = ggml_unary_impl GGML_OP_SQR"
definition ggml_sqrt_impl where "ggml_sqrt_impl = ggml_unary_impl GGML_OP_SQRT"
definition ggml_abs_impl where "ggml_abs_impl = ggml_unary_impl GGML_OP_ABS"
definition ggml_sgn_impl where "ggml_sgn_impl = ggml_unary_impl GGML_OP_SGN"
definition ggml_neg_impl where "ggml_neg_impl = ggml_unary_impl GGML_OP_NEG"
definition ggml_step_impl where "ggml_step_impl = ggml_unary_impl GGML_OP_STEP"
definition ggml_relu_impl where "ggml_relu_impl = ggml_unary_impl GGML_OP_RELU"
definition ggml_gelu_impl where "ggml_gelu_impl = ggml_unary_impl GGML_OP_GELU"

definition ggml_dup where "ggml_dup tsz ctx a = ggml_dup_impl tsz ctx a False"
definition ggml_sqr where "ggml_sqr tsz ctx a = ggml_sqr_impl tsz ctx a False"
definition ggml_sqrt where "ggml_sqrt tsz ctx a = ggml_sqrt_impl tsz ctx a False"
definition ggml_abs where "ggml_abs tsz ctx a = ggml_abs_impl tsz ctx a False"
definition ggml_sgn where "ggml_sgn tsz ctx a = ggml_sgn_impl tsz ctx a False"
definition ggml_neg where "ggml_neg tsz ctx a = ggml_neg_impl tsz ctx a False"
definition ggml_step where "ggml_step tsz ctx a = ggml_step_impl tsz ctx a False"
definition ggml_relu where "ggml_relu tsz ctx a = ggml_relu_impl tsz ctx a False"
definition ggml_gelu where "ggml_gelu tsz ctx a = ggml_gelu_impl tsz ctx a False"

text \<open>The body shared by \<^verbatim>\<open>ggml_add_impl\<close> and \<^verbatim>\<open>ggml_sub_impl\<close>; \<^verbatim>\<open>ggml_mul_impl\<close> and
  \<^verbatim>\<open>ggml_div_impl\<close> add \<^verbatim>\<open>if (inplace) assert(is_node == false)\<close> (\<open>chk\<close>).\<close>

definition ggml_binary_impl ::
  "ggml_op \<Rightarrow> bool \<Rightarrow> size_t \<Rightarrow> ggml_context \<Rightarrow> handle \<Rightarrow> handle \<Rightarrow> bool \<Rightarrow> handle result" where
  "ggml_binary_impl opc chk tsz ctx a b inplace =
     get_tensor ctx a (\<lambda>ta. get_tensor ctx b (\<lambda>tb.
       if \<not> ggml_are_same_shape ta tb then (Inl Assert_failed, ctx)
       else
         (let is_node = (\<not> inplace \<and> (grad ta \<noteq> None \<or> grad tb \<noteq> None))
          in if chk \<and> inplace \<and> is_node then (Inl Assert_failed, ctx)
             else bind (if inplace then ggml_view_tensor tsz ctx a else ggml_dup_tensor tsz ctx a)
                    (set_node tsz opc is_node (Some a) (Some b)))))"

definition ggml_add_impl where "ggml_add_impl = ggml_binary_impl GGML_OP_ADD False"
definition ggml_sub_impl where "ggml_sub_impl = ggml_binary_impl GGML_OP_SUB False"
definition ggml_mul_impl where "ggml_mul_impl = ggml_binary_impl GGML_OP_MUL True"
definition ggml_div_impl where "ggml_div_impl = ggml_binary_impl GGML_OP_DIV True"

definition ggml_add where "ggml_add tsz ctx a b = ggml_add_impl tsz ctx a b False"
definition ggml_sub where "ggml_sub tsz ctx a b = ggml_sub_impl tsz ctx a b False"
definition ggml_mul where "ggml_mul tsz ctx a b = ggml_mul_impl tsz ctx a b False"
definition ggml_div where "ggml_div tsz ctx a b = ggml_div_impl tsz ctx a b False"

definition ggml_sum :: "size_t \<Rightarrow> ggml_context \<Rightarrow> handle \<Rightarrow> handle result" where
  "ggml_sum tsz ctx a =
     get_tensor ctx a (\<lambda>ta.
       let is_node = (grad ta \<noteq> None)
       in bind (ggml_new_tensor_1d tsz ctx (type ta) 1) (set_node tsz GGML_OP_SUM is_node (Some a) None))"

definition ggml_repeat :: "size_t \<Rightarrow> ggml_context \<Rightarrow> handle \<Rightarrow> handle \<Rightarrow> handle result" where
  "ggml_repeat tsz ctx a b =
     get_tensor ctx a (\<lambda>ta. get_tensor ctx b (\<lambda>tb.
       if \<not> ggml_can_repeat ta tb then (Inl Assert_failed, ctx)
       else
         (let is_node = (grad ta \<noteq> None)
          in if ggml_are_same_shape ta tb \<and> \<not> is_node then (Inr a, ctx)
             else bind (ggml_new_tensor tsz ctx (type ta) (n_dims tb) (ne tb))
                    (set_node tsz GGML_OP_REPEAT is_node (Some a) None))))"

definition ggml_mul_mat :: "size_t \<Rightarrow> ggml_context \<Rightarrow> handle \<Rightarrow> handle \<Rightarrow> handle result" where
  "ggml_mul_mat tsz ctx a b =
     get_tensor ctx a (\<lambda>ta. get_tensor ctx b (\<lambda>tb.
       if \<not> ggml_can_mul_mat ta tb then (Inl Assert_failed, ctx)
       else
         (let is_node = (grad ta \<noteq> None \<or> grad tb \<noteq> None);
              nes = [ne ta ! 1, ne tb ! 1, ne ta ! 2, ne tb ! 3]
          in bind (ggml_new_tensor tsz ctx GGML_TYPE_F32 (min (n_dims ta) (n_dims tb)) nes)
               (set_node tsz GGML_OP_MUL_MAT is_node (Some a) (Some b)))))"

definition ggml_transpose :: "size_t \<Rightarrow> ggml_context \<Rightarrow> handle \<Rightarrow> handle result" where
  "ggml_transpose tsz ctx a =
     get_tensor ctx a (\<lambda>ta.
       if grad ta \<noteq> None then (Inl Assert_failed, ctx)
       else bind (ggml_view_tensor tsz ctx a) (\<lambda>result c.
              set_node tsz GGML_OP_TRANSPOSE False (Some a) None result
                (upd_tensor result
                   (\<lambda>t. t\<lparr>ne := (ne t)[0 := ne ta ! 1, 1 := ne ta ! 0],
                           nb := (nb t)[0 := nb ta ! 1, 1 := nb ta ! 0]\<rparr>) c)))"

text \<open>\<^verbatim>\<open>ggml_rope\<close>: the result is a view of \<open>a\<close>; its parameters are the three I32 cells of a new
  tensor \<open>b\<close>.\<close>

definition ggml_rope :: "size_t \<Rightarrow> ggml_context \<Rightarrow> handle \<Rightarrow> int \<Rightarrow> int \<Rightarrow> int \<Rightarrow> handle result" where
  "ggml_rope tsz ctx a n_past nd mode =
     (if \<not> 0 \<le> n_past then (Inl Assert_failed, ctx)
      else get_tensor ctx a (\<lambda>ta.
        if grad ta \<noteq> None then (Inl Assert_failed, ctx)
        else bind (ggml_view_tensor tsz ctx a) (\<lambda>result c.
             bind (ggml_new_tensor_1d tsz c GGML_TYPE_I32 3) (\<lambda>b c.
             get_tensor c b (\<lambda>tb.
               set_node tsz GGML_OP_ROPE False (Some a) (Some b) result
                 (c\<lparr>i32 := (i32 c)(data tb := n_past, data tb + 4 := nd, data tb + 8 := mode)\<rparr>))))))"

definition ggml_set_param :: "size_t \<Rightarrow> ggml_context \<Rightarrow> handle \<Rightarrow> unit result" where
  "ggml_set_param tsz ctx tensor =
     get_tensor ctx tensor (\<lambda>t.
       let c1 = upd_tensor tensor (\<lambda>t. t\<lparr>is_param := True\<rparr>) ctx
       in if grad t \<noteq> None then (Inl Assert_failed, c1)
          else bind (ggml_dup_tensor tsz c1 tensor) (\<lambda>g c.
                 (Inr (), upd_tensor tensor (\<lambda>t. t\<lparr>grad := Some g\<rparr>) c)))"

section \<open>Autodiff: the backward rules\<close>

text \<open>
  \<open>deref_grad\<close> is the read \<^verbatim>\<open>src->grad\<close> through a source pointer, \<open>tensor_grad\<close> the value
  \<^verbatim>\<open>tensor->grad\<close> handed to a constructor that dereferences it at once, and \<open>if_grad\<close> the
  statement \<^verbatim>\<open>if (src->grad) { src->grad = e; }\<close>, with \<open>e\<close> computed from the source and its
  current gradient. Where a call has two arguments that are themselves calls, C leaves their
  order open; they run left to right here.
\<close>

definition deref_grad :: "ggml_context \<Rightarrow> handle option \<Rightarrow> (handle \<times> handle option) result" where
  "deref_grad ctx p =
     (case p of None \<Rightarrow> (Inl Null_deref, ctx)
      | Some h \<Rightarrow> get_tensor ctx h (\<lambda>t. (Inr (h, grad t), ctx)))"

definition nonnull :: "ggml_context \<Rightarrow> handle option \<Rightarrow> handle result" where
  "nonnull ctx p = (case p of None \<Rightarrow> (Inl Null_deref, ctx) | Some h \<Rightarrow> (Inr h, ctx))"

definition tensor_grad :: "handle \<Rightarrow> ggml_context \<Rightarrow> handle result" where
  "tensor_grad tensor ctx = get_tensor ctx tensor (\<lambda>t. nonnull ctx (grad t))"

definition if_grad ::
  "ggml_context \<Rightarrow> handle option \<Rightarrow> (handle \<Rightarrow> handle \<Rightarrow> ggml_context \<Rightarrow> handle result) \<Rightarrow>
     unit result" where
  "if_grad ctx p e =
     bind (deref_grad ctx p) (\<lambda>sg c.
       case snd sg of
         None \<Rightarrow> (Inr (), c)
       | Some g \<Rightarrow>
           bind (e (fst sg) g c) (\<lambda>r c'. (Inr (), upd_tensor (fst sg) (\<lambda>t. t\<lparr>grad := Some r\<rparr>) c')))"

definition ggml_compute_backward :: "size_t \<Rightarrow> ggml_context \<Rightarrow> handle \<Rightarrow> bool \<Rightarrow> unit result" where
  "ggml_compute_backward tsz ctx tensor inplace =
     get_tensor ctx tensor (\<lambda>t.
       let s0 = src0 t; s1 = src1 t; tg = tensor_grad tensor
       in case op t of
         GGML_OP_DUP \<Rightarrow>
           if_grad ctx s0 (\<lambda>s g c. bind (tg c) (\<lambda>d c. ggml_add_impl tsz c g d inplace))
       | GGML_OP_ADD \<Rightarrow>
           bind (if_grad ctx s0 (\<lambda>s g c. bind (tg c) (\<lambda>d c. ggml_add_impl tsz c g d inplace)))
             (\<lambda>_ c. if_grad c s1 (\<lambda>s g c. bind (tg c) (\<lambda>d c. ggml_add_impl tsz c g d inplace)))
       | GGML_OP_SUB \<Rightarrow>
           bind (if_grad ctx s0 (\<lambda>s g c. bind (tg c) (\<lambda>d c. ggml_add_impl tsz c g d inplace)))
             (\<lambda>_ c. if_grad c s1 (\<lambda>s g c. bind (tg c) (\<lambda>d c. ggml_sub_impl tsz c g d inplace)))
       | GGML_OP_MUL \<Rightarrow>
           bind (if_grad ctx s0 (\<lambda>s g c.
                   bind (nonnull c s1) (\<lambda>b c. bind (tg c) (\<lambda>d c.
                   bind (ggml_mul tsz c b d) (\<lambda>m c. ggml_add_impl tsz c g m inplace)))))
             (\<lambda>_ c. if_grad c s1 (\<lambda>s g c.
                   bind (nonnull c s0) (\<lambda>a c. bind (tg c) (\<lambda>d c.
                   bind (ggml_mul tsz c a d) (\<lambda>m c. ggml_add_impl tsz c g m inplace)))))
       | GGML_OP_DIV \<Rightarrow>
           bind (if_grad ctx s0 (\<lambda>s g c.
                   bind (tg c) (\<lambda>d c. bind (nonnull c s1) (\<lambda>b c.
                   bind (ggml_div tsz c d b) (\<lambda>q c. ggml_add_impl tsz c g q inplace)))))
             (\<lambda>_ c. if_grad c s1 (\<lambda>s g c.
                   bind (tg c) (\<lambda>d c.
                   bind (ggml_div tsz c tensor s) (\<lambda>q c.
                   bind (ggml_mul tsz c d q) (\<lambda>m c. ggml_sub_impl tsz c g m inplace)))))
       | GGML_OP_SQR \<Rightarrow>
           if_grad ctx s0 (\<lambda>s g c.
             bind (tg c) (\<lambda>d c.
             bind (ggml_mul tsz c s d) (\<lambda>m1 c.
             bind (ggml_new_f32 tsz c 2) (\<lambda>two c.
             bind (ggml_repeat tsz c two s) (\<lambda>r c.
             bind (ggml_mul tsz c m1 r) (\<lambda>m2 c. ggml_add_impl tsz c g m2 inplace))))))
       | GGML_OP_SQRT \<Rightarrow>
           if_grad ctx s0 (\<lambda>s g c.
             bind (ggml_new_f32 tsz c (1 / 2)) (\<lambda>half c.
             bind (ggml_repeat tsz c half tensor) (\<lambda>r c.
             bind (ggml_div tsz c r tensor) (\<lambda>q c. ggml_add_impl tsz c g q inplace))))
       | GGML_OP_SUM \<Rightarrow>
           if_grad ctx s0 (\<lambda>s g c.
             bind (tg c) (\<lambda>d c.
             bind (ggml_repeat tsz c d g) (\<lambda>r c. ggml_add_impl tsz c g r inplace)))
       | GGML_OP_MEAN \<Rightarrow> (Inl Assert_failed, ctx)
       | GGML_OP_REPEAT \<Rightarrow>
           if_grad ctx s0 (\<lambda>s g c.
             bind (tg c) (\<lambda>d c.
             bind (ggml_sum tsz c d) (\<lambda>r c. ggml_add_impl tsz c g r inplace)))
       | GGML_OP_ABS \<Rightarrow>
           if_grad ctx s0 (\<lambda>s g c.
             bind (ggml_sgn tsz c s) (\<lambda>sg c.
             bind (tg c) (\<lambda>d c.
             bind (ggml_mul tsz c sg d) (\<lambda>m c. ggml_add_impl tsz c g m inplace))))
       | GGML_OP_SGN \<Rightarrow> bind (deref_grad ctx s0) (\<lambda>_ c. (Inr (), c))
       | GGML_OP_NEG \<Rightarrow>
           if_grad ctx s0 (\<lambda>s g c. bind (tg c) (\<lambda>d c. ggml_sub_impl tsz c g d inplace))
       | GGML_OP_STEP \<Rightarrow> bind (deref_grad ctx s0) (\<lambda>_ c. (Inr (), c))
       | GGML_OP_RELU \<Rightarrow>
           if_grad ctx s0 (\<lambda>s g c.
             bind (ggml_step tsz c s) (\<lambda>st c.
             bind (tg c) (\<lambda>d c.
             bind (ggml_mul tsz c st d) (\<lambda>m c. ggml_sub_impl tsz c g m inplace))))
       | GGML_OP_GELU \<Rightarrow> (Inl Assert_failed, ctx)
       | GGML_OP_NORM \<Rightarrow> (Inl Assert_failed, ctx)
       | GGML_OP_MUL_MAT \<Rightarrow>
           bind (deref_grad ctx s0) (\<lambda>sg c.
             if snd sg \<noteq> None then (Inl Assert_failed, c)
             else if_grad c s1 (\<lambda>s g c.
                    bind (ggml_transpose tsz c (fst sg)) (\<lambda>tr c.
                    bind (tg c) (\<lambda>d c.
                    bind (ggml_mul_mat tsz c tr d) (\<lambda>m c. ggml_add_impl tsz c g m inplace)))))
       | GGML_OP_SCALE \<Rightarrow> (Inl GGML_assert_failed, ctx)
       | GGML_OP_CPY \<Rightarrow> (Inl GGML_assert_failed, ctx)
       | GGML_OP_RESHAPE \<Rightarrow> (Inl GGML_assert_failed, ctx)
       | GGML_OP_VIEW \<Rightarrow> (Inl GGML_assert_failed, ctx)
       | GGML_OP_PERMUTE \<Rightarrow> (Inl GGML_assert_failed, ctx)
       | GGML_OP_TRANSPOSE \<Rightarrow> (Inl GGML_assert_failed, ctx)
       | GGML_OP_GET_ROWS \<Rightarrow> (Inl GGML_assert_failed, ctx)
       | GGML_OP_DIAG_MASK_INF \<Rightarrow> (Inl GGML_assert_failed, ctx)
       | GGML_OP_SOFT_MAX \<Rightarrow> (Inl GGML_assert_failed, ctx)
       | GGML_OP_ROPE \<Rightarrow> (Inl GGML_assert_failed, ctx)
       | GGML_OP_CONV_1D_1S \<Rightarrow> (Inl GGML_assert_failed, ctx)
       | GGML_OP_CONV_1D_2S \<Rightarrow> (Inl GGML_assert_failed, ctx)
       | GGML_OP_FLASH_ATTN \<Rightarrow> (Inl GGML_assert_failed, ctx)
       | GGML_OP_FLASH_FF \<Rightarrow> (Inl GGML_assert_failed, ctx)
       | GGML_OP_NONE \<Rightarrow> (Inr (), ctx)
       | GGML_OP_COUNT \<Rightarrow> (Inl GGML_assert_failed, ctx))"

section \<open>Graphs\<close>

text \<open>
  \<^verbatim>\<open>struct ggml_cgraph\<close> is declared in \<^verbatim>\<open>ggml.h\<close>; the fields are those of the initialiser in
  \<^verbatim>\<open>ggml_build_forward\<close>, without the performance counters. The arrays \<^verbatim>\<open>nodes\<close>, \<^verbatim>\<open>grads\<close> and
  \<^verbatim>\<open>leafs\<close> are the lists of their live entries: \<^verbatim>\<open>n_nodes\<close> is \<open>length (nodes g)\<close> and
  \<^verbatim>\<open>n_leafs\<close> is \<open>length (leafs g)\<close>. Their capacity \<^verbatim>\<open>GGML_MAX_NODES\<close> is a macro of \<^verbatim>\<open>ggml.h\<close>
  and is the parameter \<open>mx\<close>.
\<close>

record ggml_cgraph =
  n_threads :: int
  work_size :: size_t
  work :: "handle option"
  nodes :: "handle list"
  grads :: "handle option list"
  leafs :: "handle list"

definition srcs :: "ggml_tensor \<Rightarrow> handle option list" where
  "srcs t = src0 t # src1 t # opt t"

text \<open>The tail of \<^verbatim>\<open>ggml_visit_parents\<close>: the node goes to \<^verbatim>\<open>leafs\<close> or to \<^verbatim>\<open>nodes\<close> and
  \<^verbatim>\<open>grads\<close>, after the capacity \<^verbatim>\<open>assert\<close>.\<close>

definition add_node :: "nat \<Rightarrow> handle \<Rightarrow> ggml_tensor \<Rightarrow> ggml_cgraph \<Rightarrow> error + ggml_cgraph" where
  "add_node mx node t g =
     (if op t = GGML_OP_NONE \<and> grad t = None then
        (if \<not> length (leafs g) < mx then Inl Assert_failed
         else Inr (g\<lparr>leafs := leafs g @ [node]\<rparr>))
      else
        (if \<not> length (nodes g) < mx then Inl Assert_failed
         else Inr (g\<lparr>nodes := nodes g @ [node], grads := grads g @ [grad t]\<rparr>)))"

text \<open>
  \<^verbatim>\<open>ggml_visit_parents\<close> recurses through pointers and returns only if the pointer graph has no
  cycle, so it is a partial function: \<open>None\<close> is the run that does not return. \<open>visit_list\<close>
  runs \<^verbatim>\<open>ggml_visit_parents\<close> on each non-NULL pointer of a list in turn; the calls on
  \<^verbatim>\<open>node->src0\<close>, \<^verbatim>\<open>node->src1\<close> and the loop over \<^verbatim>\<open>node->opt\<close> are the list \<open>srcs t\<close>.
  \<open>T\<close> is the table of tensor headers, which the visit does not change.
\<close>

partial_function (option) visit_list ::
  "nat \<Rightarrow> (handle \<Rightarrow> ggml_tensor option) \<Rightarrow> handle option list \<Rightarrow> ggml_cgraph \<Rightarrow>
     (error + ggml_cgraph) option" where
  "visit_list mx T ps g =
     (case ps of
        [] \<Rightarrow> Some (Inr g)
      | None # rest \<Rightarrow> visit_list mx T rest g
      | Some node # rest \<Rightarrow>
          (case T node of
             None \<Rightarrow> Some (Inl Null_deref)
           | Some t \<Rightarrow>
               if node \<in> set (nodes g) \<or> node \<in> set (leafs g) then visit_list mx T rest g
               else
                 do {
                   r \<leftarrow> visit_list mx T (srcs t) g;
                   case r of
                     Inl e \<Rightarrow> Some (Inl e)
                   | Inr g1 \<Rightarrow>
                       (case add_node mx node t g1 of
                          Inl e \<Rightarrow> Some (Inl e)
                        | Inr g2 \<Rightarrow> visit_list mx T rest g2)
                 }))"

declare visit_list.simps [code]

definition ggml_visit_parents ::
  "nat \<Rightarrow> (handle \<Rightarrow> ggml_tensor option) \<Rightarrow> ggml_cgraph \<Rightarrow> handle \<Rightarrow> (error + ggml_cgraph) option" where
  "ggml_visit_parents mx T g node = visit_list mx T [Some node] g"

definition ggml_build_forward_impl ::
  "nat \<Rightarrow> (handle \<Rightarrow> ggml_tensor option) \<Rightarrow> ggml_cgraph \<Rightarrow> handle \<Rightarrow> bool \<Rightarrow>
     (error + ggml_cgraph) option" where
  "ggml_build_forward_impl mx T g tensor expand =
     (let g0 = (if \<not> expand then g\<lparr>nodes := [], grads := [], leafs := []\<rparr> else g);
          n0 = int (length (nodes g0))
      in do {
           r \<leftarrow> ggml_visit_parents mx T g0 tensor;
           case r of
             Inl e \<Rightarrow> Some (Inl e)
           | Inr g1 \<Rightarrow>
               (let n_new = int (length (nodes g1)) - n0
                in if n_new > 0 \<and> nodes g1 ! (length (nodes g1) - 1) \<noteq> tensor
                   then Some (Inl Assert_failed)
                   else Some (Inr g1))
         })"


definition empty_cgraph :: ggml_cgraph where
  "empty_cgraph = \<lparr>n_threads = 0, work_size = 0, work = None, nodes = [], grads = [], leafs = []\<rparr>"

definition ggml_build_forward ::
  "nat \<Rightarrow> (handle \<Rightarrow> ggml_tensor option) \<Rightarrow> handle \<Rightarrow> (error + ggml_cgraph) option" where
  "ggml_build_forward mx T tensor = ggml_build_forward_impl mx T empty_cgraph tensor False"

subsection \<open>Properties of a built graph\<close>






section \<open>Forward kernels\<close>

text \<open>
  A kernel reads and writes the F32 cells of the arena through byte addresses, so a view and
  its source share their cells as they do in C. The loops are folds over the index ranges,
  in the order of the source. The SIMD variants of the vector primitives are alternative
  implementations of the scalar loops and are not modelled.
\<close>

datatype ggml_task_type = GGML_TASK_INIT | GGML_TASK_COMPUTE | GGML_TASK_FINALIZE

text \<open>\<^verbatim>\<open>struct ggml_compute_params\<close>; its field \<^verbatim>\<open>type\<close> is \<open>task\<close> here.\<close>

record ggml_compute_params =
  task :: ggml_task_type
  ith :: int
  nth :: int
  wsize :: size_t
  wdata :: "size_t option"

text \<open>The values of \<open>j\<close> in \<^verbatim>\<open>for (int j = a; j < b; j++)\<close>.\<close>

definition int_range :: "int \<Rightarrow> int \<Rightarrow> int list" where
  "int_range a b = map (\<lambda>k. a + int k) [0..<nat (b - a)]"

text \<open>\<^verbatim>\<open>for (i = 0; i < n; ++i) z[i] = f(x[i], y[i])\<close> and \<^verbatim>\<open>y[i] = f(x[i])\<close> on F32 cells.\<close>

definition vec_map2 ::
  "(real \<Rightarrow> real \<Rightarrow> real) \<Rightarrow> int \<Rightarrow> size_t \<Rightarrow> size_t \<Rightarrow> size_t \<Rightarrow> (size_t \<Rightarrow> real) \<Rightarrow> (size_t \<Rightarrow> real)" where
  "vec_map2 f n z x y m =
     fold (\<lambda>i m. m(z + 4 * of_nat i := f (m (x + 4 * of_nat i)) (m (y + 4 * of_nat i)))) [0..<nat n] m"

definition vec_map1 ::
  "(real \<Rightarrow> real) \<Rightarrow> int \<Rightarrow> size_t \<Rightarrow> size_t \<Rightarrow> (size_t \<Rightarrow> real) \<Rightarrow> (size_t \<Rightarrow> real)" where
  "vec_map1 f n y x m = fold (\<lambda>i m. m(y + 4 * of_nat i := f (m (x + 4 * of_nat i)))) [0..<nat n] m"

definition ggml_vec_add_f32 where "ggml_vec_add_f32 = vec_map2 (\<lambda>a b. a + b)"
definition ggml_vec_sub_f32 where "ggml_vec_sub_f32 = vec_map2 (\<lambda>a b. a - b)"
definition ggml_vec_mul_f32 where "ggml_vec_mul_f32 = vec_map2 (\<lambda>a b. a * b)"
definition ggml_vec_div_f32 where "ggml_vec_div_f32 = vec_map2 (\<lambda>a b. a / b)"
definition ggml_vec_cpy_f32 where "ggml_vec_cpy_f32 = vec_map1 (\<lambda>a. a)"
definition ggml_vec_neg_f32 where "ggml_vec_neg_f32 = vec_map1 (\<lambda>a. - a)"
definition ggml_vec_sqr_f32 where "ggml_vec_sqr_f32 = vec_map1 (\<lambda>a. a * a)"
definition ggml_vec_sqrt_f32 where "ggml_vec_sqrt_f32 = vec_map1 sqrt"
definition ggml_vec_abs_f32 where "ggml_vec_abs_f32 = vec_map1 abs"
definition ggml_vec_sgn_f32 where
  "ggml_vec_sgn_f32 = vec_map1 (\<lambda>a. if a > 0 then 1 else if a < 0 then - 1 else 0)"
definition ggml_vec_step_f32 where "ggml_vec_step_f32 = vec_map1 (\<lambda>a. if a > 0 then 1 else 0)"
definition ggml_vec_relu_f32 where "ggml_vec_relu_f32 = vec_map1 (\<lambda>a. if a > 0 then a else 0)"

text \<open>\<^verbatim>\<open>ggml_vec_dot_f32\<close>, the scalar loop: \<^verbatim>\<open>sumf += x[i]*y[i]\<close> from 0, then \<^verbatim>\<open>*s = sumf\<close>.\<close>

definition ggml_vec_dot_f32 :: "int \<Rightarrow> size_t \<Rightarrow> size_t \<Rightarrow> size_t \<Rightarrow> (size_t \<Rightarrow> real) \<Rightarrow> (size_t \<Rightarrow> real)" where
  "ggml_vec_dot_f32 n s x y m =
     m(s := fold (\<lambda>i sumf. sumf + m (x + 4 * of_nat i) * m (y + 4 * of_nat i)) [0..<nat n] 0)"

text \<open>\<^verbatim>\<open>ggml_vec_sum_f32\<close>: the sum of the row is added to \<^verbatim>\<open>*s\<close>.\<close>

definition ggml_vec_sum_f32 :: "int \<Rightarrow> size_t \<Rightarrow> size_t \<Rightarrow> (size_t \<Rightarrow> real) \<Rightarrow> (size_t \<Rightarrow> real)" where
  "ggml_vec_sum_f32 n s x m = m(s := m s + fold (\<lambda>i sum. sum + m (x + 4 * of_nat i)) [0..<nat n] 0)"

definition is_init_or_finalize :: "ggml_compute_params \<Rightarrow> bool" where
  "is_init_or_finalize params \<longleftrightarrow> task params = GGML_TASK_INIT \<or> task params = GGML_TASK_FINALIZE"

text \<open>\<^verbatim>\<open>ggml_compute_forward_add_f32\<close>. The row ranges of the threads: thread \<open>ith\<close> takes the rows
  from \<^verbatim>\<open>(n/nth)*ith\<close>, the last thread up to \<open>n\<close>.\<close>

definition ggml_compute_forward_add_f32 ::
  "ggml_compute_params \<Rightarrow> ggml_tensor \<Rightarrow> ggml_tensor \<Rightarrow> ggml_tensor \<Rightarrow> ggml_context \<Rightarrow> unit result" where
  "ggml_compute_forward_add_f32 params s0 s1 dst ctx =
     (if \<not> (ggml_are_same_shape s0 s1 \<and> ggml_are_same_shape s0 dst) then (Inl GGML_assert_failed, ctx)
      else if is_init_or_finalize params then (Inr (), ctx)
      else
        (let n = ggml_nrows s0; nc = ne s0 ! 0;
             nb00 = nb s0 ! 0; nb01 = nb s0 ! 1;
             nb10 = nb s1 ! 0; nb11 = nb s1 ! 1;
             nb0 = nb dst ! 0; nb1 = nb dst ! 1
         in if nb0 \<noteq> 4 then (Inl GGML_assert_failed, ctx)
            else if nb00 \<noteq> 4 then (Inl GGML_assert_failed, ctx)
            else if nb10 = 4 then
              (let j0 = c_div n (nth params) * ith params;
                   j1 = (if ith params = nth params - 1 then n else c_div n (nth params) * (ith params + 1))
               in (Inr (),
                   ctx\<lparr>f32 := fold (\<lambda>j. ggml_vec_add_f32 nc
                                           (data dst + word_of_int j * nb1)
                                           (data s0 + word_of_int j * nb01)
                                           (data s1 + word_of_int j * nb11))
                                  (int_range j0 j1) (f32 ctx)\<rparr>))
            else
              (Inr (),
               ctx\<lparr>f32 := fold (\<lambda>k m.
                                let j = ith params + int k * nth params
                                in fold (\<lambda>i m.
                                     m(data dst + word_of_int j * nb1 + 4 * word_of_int i :=
                                         m (data s0 + word_of_int j * nb01 + 4 * word_of_int i) +
                                         m (data s1 + word_of_int j * nb11 + word_of_int i * nb10)))
                                     (int_range 0 nc) m)
                              [0..<nat (if nth params \<le> 0 then 0
                                        else (n - ith params + nth params - 1) div nth params)]
                              (f32 ctx)\<rparr>)))"

text \<open>The body shared by the F32 kernels of SUB, MUL and DIV, which differ in the vector
  primitive only.\<close>

definition compute_forward_binary_f32 ::
  "(int \<Rightarrow> size_t \<Rightarrow> size_t \<Rightarrow> size_t \<Rightarrow> (size_t \<Rightarrow> real) \<Rightarrow> (size_t \<Rightarrow> real)) \<Rightarrow>
     ggml_compute_params \<Rightarrow> ggml_tensor \<Rightarrow> ggml_tensor \<Rightarrow> ggml_tensor \<Rightarrow> ggml_context \<Rightarrow> unit result" where
  "compute_forward_binary_f32 vec params s0 s1 dst ctx =
     (if ith params \<noteq> 0 then (Inl Assert_failed, ctx)
      else if \<not> (ggml_are_same_shape s0 s1 \<and> ggml_are_same_shape s0 dst) then (Inl Assert_failed, ctx)
      else if is_init_or_finalize params then (Inr (), ctx)
      else if nb dst ! 0 \<noteq> 4 \<or> nb s0 ! 0 \<noteq> 4 \<or> nb s1 ! 0 \<noteq> 4 then (Inl Assert_failed, ctx)
      else (Inr (),
            ctx\<lparr>f32 := fold (\<lambda>i. vec (ne s0 ! 0)
                                    (data dst + word_of_int i * (nb dst ! 1))
                                    (data s0 + word_of_int i * (nb s0 ! 1))
                                    (data s1 + word_of_int i * (nb s1 ! 1)))
                           (int_range 0 (ggml_nrows s0)) (f32 ctx)\<rparr>))"

definition ggml_compute_forward_sub_f32 where
  "ggml_compute_forward_sub_f32 = compute_forward_binary_f32 ggml_vec_sub_f32"
definition ggml_compute_forward_mul_f32 where
  "ggml_compute_forward_mul_f32 = compute_forward_binary_f32 ggml_vec_mul_f32"
definition ggml_compute_forward_div_f32 where
  "ggml_compute_forward_div_f32 = compute_forward_binary_f32 ggml_vec_div_f32"

text \<open>The body shared by the F32 kernels of SQR, SQRT, ABS, SGN, NEG, STEP and RELU.\<close>

definition compute_forward_unary_f32 ::
  "(int \<Rightarrow> size_t \<Rightarrow> size_t \<Rightarrow> (size_t \<Rightarrow> real) \<Rightarrow> (size_t \<Rightarrow> real)) \<Rightarrow>
     ggml_compute_params \<Rightarrow> ggml_tensor \<Rightarrow> ggml_tensor \<Rightarrow> ggml_context \<Rightarrow> unit result" where
  "compute_forward_unary_f32 vec params s0 dst ctx =
     (if ith params \<noteq> 0 then (Inl Assert_failed, ctx)
      else if \<not> ggml_are_same_shape s0 dst then (Inl Assert_failed, ctx)
      else if is_init_or_finalize params then (Inr (), ctx)
      else if nb dst ! 0 \<noteq> 4 \<or> nb s0 ! 0 \<noteq> 4 then (Inl Assert_failed, ctx)
      else (Inr (),
            ctx\<lparr>f32 := fold (\<lambda>i. vec (ne s0 ! 0)
                                    (data dst + word_of_int i * (nb dst ! 1))
                                    (data s0 + word_of_int i * (nb s0 ! 1)))
                           (int_range 0 (ggml_nrows s0)) (f32 ctx)\<rparr>))"

definition ggml_compute_forward_sqr_f32 where
  "ggml_compute_forward_sqr_f32 = compute_forward_unary_f32 ggml_vec_sqr_f32"
definition ggml_compute_forward_sqrt_f32 where
  "ggml_compute_forward_sqrt_f32 = compute_forward_unary_f32 ggml_vec_sqrt_f32"
definition ggml_compute_forward_abs_f32 where
  "ggml_compute_forward_abs_f32 = compute_forward_unary_f32 ggml_vec_abs_f32"
definition ggml_compute_forward_sgn_f32 where
  "ggml_compute_forward_sgn_f32 = compute_forward_unary_f32 ggml_vec_sgn_f32"
definition ggml_compute_forward_neg_f32 where
  "ggml_compute_forward_neg_f32 = compute_forward_unary_f32 ggml_vec_neg_f32"
definition ggml_compute_forward_step_f32 where
  "ggml_compute_forward_step_f32 = compute_forward_unary_f32 ggml_vec_step_f32"
definition ggml_compute_forward_relu_f32 where
  "ggml_compute_forward_relu_f32 = compute_forward_unary_f32 ggml_vec_relu_f32"

definition ggml_compute_forward_sum_f32 ::
  "ggml_compute_params \<Rightarrow> ggml_tensor \<Rightarrow> ggml_tensor \<Rightarrow> ggml_context \<Rightarrow> unit result" where
  "ggml_compute_forward_sum_f32 params s0 dst ctx =
     (if ith params \<noteq> 0 then (Inl Assert_failed, ctx)
      else if \<not> ggml_is_scalar dst then (Inl Assert_failed, ctx)
      else if is_init_or_finalize params then (Inr (), ctx)
      else if nb s0 ! 0 \<noteq> 4 then (Inl Assert_failed, ctx)
      else (Inr (),
            ctx\<lparr>f32 :=
              fold (\<lambda>i03. fold (\<lambda>i02. fold (\<lambda>i01.
                     ggml_vec_sum_f32 (ne s0 ! 0) (data dst)
                       (data s0 + word_of_int i01 * (nb s0 ! 1) + word_of_int i02 * (nb s0 ! 2)
                          + word_of_int i03 * (nb s0 ! 3)))
                   (int_range 0 (ne s0 ! 1))) (int_range 0 (ne s0 ! 2))) (int_range 0 (ne s0 ! 3))
                ((f32 ctx)(data dst := 0))\<rparr>))"

definition ggml_compute_forward_repeat_f32 ::
  "ggml_compute_params \<Rightarrow> ggml_tensor \<Rightarrow> ggml_tensor \<Rightarrow> ggml_context \<Rightarrow> unit result" where
  "ggml_compute_forward_repeat_f32 params s0 dst ctx =
     (if ith params \<noteq> 0 then (Inl Assert_failed, ctx)
      else if \<not> ggml_can_repeat s0 dst then (Inl Assert_failed, ctx)
      else if is_init_or_finalize params then (Inr (), ctx)
      else if ne s0 ! 2 \<noteq> 1 \<or> ne s0 ! 3 \<noteq> 1 \<or> ne dst ! 2 \<noteq> 1 \<or> ne dst ! 3 \<noteq> 1
        then (Inl Assert_failed, ctx)
      else
        (let nc = ne dst ! 0; nr = ne dst ! 1; nc0 = ne s0 ! 0; nr0 = ne s0 ! 1;
             ncr = c_div nc nc0; nrr = c_div nr nr0
         in if nb dst ! 0 \<noteq> 4 \<or> nb s0 ! 0 \<noteq> 4 then (Inl Assert_failed, ctx)
            else (Inr (),
                  ctx\<lparr>f32 :=
                    fold (\<lambda>i. fold (\<lambda>j. fold (\<lambda>k.
                           ggml_vec_cpy_f32 nc0
                             (data dst + word_of_int (i * nr0 + k) * (nb dst ! 1)
                                + word_of_int (j * nc0) * (nb dst ! 0))
                             (data s0 + word_of_int k * (nb s0 ! 1)))
                         (int_range 0 nr0)) (int_range 0 ncr)) (int_range 0 nrr) (f32 ctx)\<rparr>)))"

text \<open>
  \<^verbatim>\<open>ggml_compute_forward_mul_mat_f32\<close> without BLAS. The kernel copies the strides into \<^verbatim>\<open>int\<close>
  variables (\<open>uint\<close> below: strides are taken to fit). The branch for a transposed \<open>src0\<close>
  (\<^verbatim>\<open>nb01 < nb00\<close>), which accumulates in the work buffer, is not modelled.
\<close>

definition ggml_compute_forward_mul_mat_f32 ::
  "ggml_compute_params \<Rightarrow> ggml_tensor \<Rightarrow> ggml_tensor \<Rightarrow> ggml_tensor \<Rightarrow> ggml_context \<Rightarrow> unit result" where
  "ggml_compute_forward_mul_mat_f32 params s0 s1 dst ctx =
     (let ne00 = ne s0 ! 0; ne01 = ne s0 ! 1; ne02 = ne s0 ! 2; ne03 = ne s0 ! 3;
          ne11 = ne s1 ! 1; ne12 = ne s1 ! 2; ne13 = ne s1 ! 3;
          ne0 = ne dst ! 0; ne1 = ne dst ! 1; ne2 = ne dst ! 2; ne3 = ne dst ! 3;
          nb00 = uint (nb s0 ! 0); nb01 = uint (nb s0 ! 1); nb02 = uint (nb s0 ! 2); nb03 = uint (nb s0 ! 3);
          nb10 = uint (nb s1 ! 0); nb11 = uint (nb s1 ! 1); nb12 = uint (nb s1 ! 2); nb13 = uint (nb s1 ! 3);
          nb0 = uint (nb dst ! 0); nb1 = uint (nb dst ! 1); nb2 = uint (nb dst ! 2); nb3 = uint (nb dst ! 3)
      in if ne02 \<noteq> ne12 \<or> ne03 \<noteq> ne13 \<or> ne2 \<noteq> ne12 \<or> ne3 \<noteq> ne13 then (Inl Assert_failed, ctx)
         else if \<not> (nb00 = 4 \<or> nb01 = 4) then (Inl Assert_failed, ctx)
         else if nb0 \<noteq> 4 \<or> \<not> nb0 \<le> nb1 \<or> \<not> nb1 \<le> nb2 \<or> \<not> nb2 \<le> nb3 then (Inl Assert_failed, ctx)
         else if ne0 \<noteq> ne01 \<or> ne1 \<noteq> ne11 \<or> ne2 \<noteq> ne02 \<or> ne3 \<noteq> ne03 then (Inl Assert_failed, ctx)
         else if is_init_or_finalize params then
           (if nb01 \<ge> nb00 then (Inr (), ctx) else (Inl Not_modelled, ctx))
         else if nb01 \<ge> nb00 then
           (if nb10 \<noteq> 4 then (Inl Assert_failed, ctx)
            else
              (let nr = ne01 * ne02 * ne03;
                   dr = c_div (nr + nth params - 1) (nth params);
                   ir0 = dr * ith params;
                   ir1 = min (ir0 + dr) nr
               in (Inr (),
                   ctx\<lparr>f32 :=
                     fold (\<lambda>ir.
                             let i03 = c_div ir (ne02 * ne01);
                                 i02 = c_div (ir - i03 * ne02 * ne01) ne01;
                                 i01 = ir - i03 * ne02 * ne01 - i02 * ne01
                             in fold (\<lambda>ic.
                                  ggml_vec_dot_f32 ne00
                                    (data dst + word_of_int (i01 * nb0 + ic * nb1 + i02 * nb2 + i03 * nb3))
                                    (data s0 + word_of_int (i01 * nb01 + i02 * nb02 + i03 * nb03))
                                    (data s1 + word_of_int (ic * nb11 + i02 * nb12 + i03 * nb13)))
                                (int_range 0 ne11))
                          (int_range ir0 ir1) (f32 ctx)\<rparr>)))
         else (Inl Not_modelled, ctx))"

text \<open>
  \<^verbatim>\<open>ggml_compute_forward_rope_f32\<close>. \<^verbatim>\<open>pow\<close>, \<^verbatim>\<open>cos\<close> and \<^verbatim>\<open>sin\<close> are the real functions; both
  source cells of a pair are read before the two destination cells are written. \<open>nd\<close> is
  the kernel's local \<^verbatim>\<open>n_dims\<close>; the loop \<^verbatim>\<open>for (i0 = 0; i0 < n_dims; i0 += 2)\<close> runs for
  \<open>i0 = 2 * k\<close> with \<open>k\<close> below \<open>(nd + 1) div 2\<close>.
\<close>

definition rope_pair :: "int \<Rightarrow> int \<Rightarrow> int \<Rightarrow> size_t \<Rightarrow> size_t \<Rightarrow> (size_t \<Rightarrow> real) \<Rightarrow> (size_t \<Rightarrow> real)" where
  "rope_pair p nd i0 src dst_data m =
     (let theta = 10000 powr (real_of_int (- i0) / real_of_int nd);
          cos_theta = cos (real_of_int p * theta);
          sin_theta = sin (real_of_int p * theta);
          x0 = m src;
          x1 = m (src + 4)
      in m(dst_data := x0 * cos_theta - x1 * sin_theta,
           dst_data + 4 := x0 * sin_theta + x1 * cos_theta))"

definition ggml_compute_forward_rope_f32 ::
  "ggml_compute_params \<Rightarrow> ggml_tensor \<Rightarrow> ggml_tensor \<Rightarrow> ggml_tensor \<Rightarrow> ggml_context \<Rightarrow> unit result" where
  "ggml_compute_forward_rope_f32 params s0 s1 dst ctx =
     (if ith params \<noteq> 0 then (Inl Assert_failed, ctx)
      else if type s1 \<noteq> GGML_TYPE_I32 then (Inl Assert_failed, ctx)
      else if ggml_nelements s1 \<noteq> 3 then (Inl Assert_failed, ctx)
      else if is_init_or_finalize params then (Inr (), ctx)
      else
        (let n_past = i32 ctx (data s1); nd = i32 ctx (data s1 + 4); mode = i32 ctx (data s1 + 8);
             ne1 = ne s0 ! 1; ne2 = ne s0 ! 2; ne3 = ne s0 ! 3;
             nb0 = uint (nb s0 ! 0); nb1 = uint (nb s0 ! 1); nb2 = uint (nb s0 ! 2); nb3 = uint (nb s0 ! 3)
         in if nb0 \<noteq> 4 then (Inl Assert_failed, ctx)
            else (Inr (),
                  ctx\<lparr>f32 :=
                    fold (\<lambda>i3. fold (\<lambda>i2.
                           let p = (if mode = 0 then n_past + i2 else i2)
                           in fold (\<lambda>i1. fold (\<lambda>k.
                                let i0 = 2 * int k;
                                    off = word_of_int (i3 * nb3 + i2 * nb2 + i1 * nb1 + i0 * nb0)
                                in rope_pair p nd i0 (data s0 + off) (data dst + off))
                              [0..<nat ((nd + 1) div 2)]) (int_range 0 ne1))
                         (int_range (if mode = 0 then 0 else n_past) ne2)) (int_range 0 ne3) (f32 ctx)\<rparr>)))"

text \<open>
  \<^verbatim>\<open>ggml_compute_forward\<close> with the per-operator dispatch on \<^verbatim>\<open>src0->type\<close> folded in: every
  dispatcher modelled here runs the F32 kernel for F32 and fails \<^verbatim>\<open>assert(false)\<close> for the other
  types (MUL_MAT has an F16 kernel as well). Operators whose kernels are not modelled give
  \<open>Not_modelled\<close>.
\<close>

definition with_src0 ::
  "ggml_context \<Rightarrow> ggml_tensor \<Rightarrow> (ggml_tensor \<Rightarrow> ggml_context \<Rightarrow> unit result) \<Rightarrow> unit result" where
  "with_src0 ctx t k =
     bind (nonnull ctx (src0 t)) (\<lambda>h0 c. get_tensor c h0 (\<lambda>s0.
       case type s0 of
         GGML_TYPE_F32 \<Rightarrow> k s0 c
       | GGML_TYPE_F16 \<Rightarrow> (if op t = GGML_OP_MUL_MAT then (Inl Not_modelled, c) else (Inl Assert_failed, c))
       | _ \<Rightarrow> (Inl Assert_failed, c)))"

definition with_src1 ::
  "ggml_context \<Rightarrow> ggml_tensor \<Rightarrow> (ggml_tensor \<Rightarrow> ggml_context \<Rightarrow> unit result) \<Rightarrow> unit result" where
  "with_src1 ctx t k = bind (nonnull ctx (src1 t)) (\<lambda>h1 c. get_tensor c h1 (\<lambda>s1. k s1 c))"

definition ggml_compute_forward :: "ggml_compute_params \<Rightarrow> handle \<Rightarrow> ggml_context \<Rightarrow> unit result" where
  "ggml_compute_forward params tensor ctx =
     get_tensor ctx tensor (\<lambda>t.
       let unary = (\<lambda>kernel. with_src0 ctx t (\<lambda>s0 c. kernel params s0 t c));
           binary = (\<lambda>kernel. with_src0 ctx t (\<lambda>s0 c. with_src1 c t (\<lambda>s1 c. kernel params s0 s1 t c)))
       in case op t of
            GGML_OP_ADD \<Rightarrow> binary ggml_compute_forward_add_f32
          | GGML_OP_SUB \<Rightarrow> binary ggml_compute_forward_sub_f32
          | GGML_OP_MUL \<Rightarrow> binary ggml_compute_forward_mul_f32
          | GGML_OP_DIV \<Rightarrow> binary ggml_compute_forward_div_f32
          | GGML_OP_SQR \<Rightarrow> unary ggml_compute_forward_sqr_f32
          | GGML_OP_SQRT \<Rightarrow> unary ggml_compute_forward_sqrt_f32
          | GGML_OP_SUM \<Rightarrow> unary ggml_compute_forward_sum_f32
          | GGML_OP_REPEAT \<Rightarrow> unary ggml_compute_forward_repeat_f32
          | GGML_OP_ABS \<Rightarrow> unary ggml_compute_forward_abs_f32
          | GGML_OP_SGN \<Rightarrow> unary ggml_compute_forward_sgn_f32
          | GGML_OP_NEG \<Rightarrow> unary ggml_compute_forward_neg_f32
          | GGML_OP_STEP \<Rightarrow> unary ggml_compute_forward_step_f32
          | GGML_OP_RELU \<Rightarrow> unary ggml_compute_forward_relu_f32
          | GGML_OP_MUL_MAT \<Rightarrow> binary ggml_compute_forward_mul_mat_f32
          | GGML_OP_ROPE \<Rightarrow> binary ggml_compute_forward_rope_f32
          | GGML_OP_RESHAPE \<Rightarrow> (Inr (), ctx)
          | GGML_OP_VIEW \<Rightarrow> (Inr (), ctx)
          | GGML_OP_PERMUTE \<Rightarrow> (Inr (), ctx)
          | GGML_OP_TRANSPOSE \<Rightarrow> (Inr (), ctx)
          | GGML_OP_NONE \<Rightarrow> (Inr (), ctx)
          | GGML_OP_COUNT \<Rightarrow> (Inl GGML_assert_failed, ctx)
          | _ \<Rightarrow> (Inl Not_modelled, ctx))"

section \<open>Backward graph and graph execution\<close>

text \<open>A loop whose body may fail, over a list, threading the context.\<close>

fun mfold :: "('a \<Rightarrow> ggml_context \<Rightarrow> unit result) \<Rightarrow> 'a list \<Rightarrow> ggml_context \<Rightarrow> unit result" where
  "mfold f [] ctx = (Inr (), ctx)"
| "mfold f (x # xs) ctx = bind (f x ctx) (\<lambda>_. mfold f xs)"

text \<open>The first loop of \<^verbatim>\<open>ggml_build_backward\<close> (under \<^verbatim>\<open>keep\<close>): every node with a gradient gets
  a fresh gradient tensor, recorded in \<^verbatim>\<open>gf->grads\<close>.\<close>

fun detach_grads :: "size_t \<Rightarrow> nat list \<Rightarrow> ggml_cgraph \<Rightarrow> ggml_context \<Rightarrow> ggml_cgraph result" where
  "detach_grads tsz [] gf ctx = (Inr gf, ctx)"
| "detach_grads tsz (i # is) gf ctx =
     get_tensor ctx (nodes gf ! i) (\<lambda>t.
       if grad t \<noteq> None then
         bind (ggml_dup_tensor tsz ctx (nodes gf ! i)) (\<lambda>g c.
           detach_grads tsz is (gf\<lparr>grads := (grads gf)[i := Some g]\<rparr>)
             (upd_tensor (nodes gf ! i) (\<lambda>t. t\<lparr>grad := Some g\<rparr>) c))
       else detach_grads tsz is gf ctx)"

text \<open>The third loop: the gradient of every parameter is added to the result graph. A NULL
  gradient reaches \<^verbatim>\<open>ggml_visit_parents\<close>, which dereferences it.\<close>

fun expand_params ::
  "nat \<Rightarrow> (handle \<Rightarrow> ggml_tensor option) \<Rightarrow> handle list \<Rightarrow> ggml_cgraph \<Rightarrow> (error + ggml_cgraph) option" where
  "expand_params mx T [] g = Some (Inr g)"
| "expand_params mx T (node # rest) g =
     (case T node of
        None \<Rightarrow> Some (Inl Null_deref)
      | Some t \<Rightarrow>
          if is_param t then
            (case grad t of
               None \<Rightarrow> Some (Inl Null_deref)
             | Some gr \<Rightarrow>
                 (case ggml_build_forward_impl mx T g gr True of
                    None \<Rightarrow> None
                  | Some (Inl e) \<Rightarrow> Some (Inl e)
                  | Some (Inr g') \<Rightarrow> expand_params mx T rest g'))
          else expand_params mx T rest g)"

text \<open>\<^verbatim>\<open>ggml_build_backward\<close> returns the backward graph; the forward graph, which it updates
  through the pointer \<^verbatim>\<open>gf\<close>, is the first component of the result here.\<close>

definition ggml_build_backward ::
  "size_t \<Rightarrow> nat \<Rightarrow> ggml_context \<Rightarrow> ggml_cgraph \<Rightarrow> bool \<Rightarrow>
     ((error + ggml_cgraph \<times> ggml_cgraph) \<times> ggml_context) option" where
  "ggml_build_backward tsz mx ctx gf keep =
     (if \<not> 0 < length (nodes gf) then Some (Inl Assert_failed, ctx)
      else
        (case (if keep then detach_grads tsz [0..<length (nodes gf)] gf ctx else (Inr gf, ctx)) of
           (Inl e, c) \<Rightarrow> Some (Inl e, c)
         | (Inr gf', c) \<Rightarrow>
             (case mfold (\<lambda>node c. get_tensor c node (\<lambda>t.
                            if grad t \<noteq> None then ggml_compute_backward tsz c node keep
                            else (Inr (), c)))
                     (rev (nodes gf')) c of
                (Inl e, c') \<Rightarrow> Some (Inl e, c')
              | (Inr _, c') \<Rightarrow>
                  (case expand_params mx (tensors c') (rev (nodes gf')) gf of
                     None \<Rightarrow> None
                   | Some (Inl e) \<Rightarrow> Some (Inl e, c')
                   | Some (Inr gb) \<Rightarrow> Some (Inr (gf', gb), c')))))"

definition ggml_graph_reset :: "ggml_cgraph \<Rightarrow> ggml_context \<Rightarrow> unit result" where
  "ggml_graph_reset g ctx =
     mfold (\<lambda>gr c. case gr of None \<Rightarrow> (Inr (), c)
                   | Some h \<Rightarrow> bind (ggml_set_zero c h) (\<lambda>_ c. (Inr (), c)))
       (grads g) ctx"

text \<open>\<^verbatim>\<open>ggml_get_f32_1d\<close>, the F32 case.\<close>

definition ggml_get_f32_1d :: "ggml_context \<Rightarrow> handle \<Rightarrow> int \<Rightarrow> error + real" where
  "ggml_get_f32_1d ctx tensor i =
     (case tensors ctx tensor of
        None \<Rightarrow> Inl Null_deref
      | Some t \<Rightarrow>
          (case type t of
             GGML_TYPE_F32 \<Rightarrow>
               if nb t ! 0 \<noteq> 4 then Inl GGML_assert_failed
               else Inr (f32 ctx (data t + 4 * word_of_int i))
           | GGML_TYPE_COUNT \<Rightarrow> Inl GGML_assert_failed
           | _ \<Rightarrow> Inl Not_modelled))"

text \<open>\<^verbatim>\<open>ggml_set_f32_1d\<close>, the F32 case.\<close>

definition ggml_set_f32_1d :: "handle \<Rightarrow> int \<Rightarrow> real \<Rightarrow> ggml_context \<Rightarrow> unit result" where
  "ggml_set_f32_1d tensor i v ctx =
     get_tensor ctx tensor (\<lambda>t.
       case type t of
         GGML_TYPE_F32 \<Rightarrow>
           if nb t ! 0 \<noteq> 4 then (Inl GGML_assert_failed, ctx)
           else (Inr (), ctx\<lparr>f32 := (f32 ctx)(data t + 4 * word_of_int i := v)\<rparr>)
       | GGML_TYPE_COUNT \<Rightarrow> (Inl GGML_assert_failed, ctx)
       | _ \<Rightarrow> (Inl Not_modelled, ctx))"

text \<open>
  \<^verbatim>\<open>ggml_graph_compute\<close>. The scheduling loop sets \<^verbatim>\<open>node->n_tasks\<close> and sizes the work buffer
  (only the MUL_MAT sizes are modelled; the convolution and attention operators give
  \<open>Not_modelled\<close>). \<^verbatim>\<open>CACHE_LINE_SIZE\<close> is 64.
\<close>

definition CACHE_LINE_SIZE :: size_t where
  "CACHE_LINE_SIZE = 64"

definition node_n_tasks :: "int \<Rightarrow> ggml_op \<Rightarrow> error + int" where
  "node_n_tasks nthreads opc =
     (if opc \<in> {GGML_OP_ADD, GGML_OP_GELU, GGML_OP_NORM, GGML_OP_MUL_MAT, GGML_OP_SCALE,
                GGML_OP_SOFT_MAX} then Inr nthreads
      else if opc \<in> {GGML_OP_CONV_1D_1S, GGML_OP_CONV_1D_2S, GGML_OP_FLASH_ATTN, GGML_OP_FLASH_FF}
        then Inl Not_modelled
      else if opc = GGML_OP_COUNT then Inl Assert_failed
      else Inr 1)"

definition mul_mat_work_size :: "ggml_context \<Rightarrow> ggml_tensor \<Rightarrow> int \<Rightarrow> error + size_t" where
  "mul_mat_work_size ctx node ntasks =
     (case (src0 node, src1 node) of
        (Some h0, Some h1) \<Rightarrow>
          (case (tensors ctx h0, tensors ctx h1) of
             (Some s0, Some s1) \<Rightarrow>
               if nb s0 ! 1 < nb s0 ! 0 then
                 (case ggml_nbytes node of None \<Rightarrow> Inl Out_of_bounds
                  | Some n \<Rightarrow> Inr (n * word_of_int ntasks))
               else if type s0 = GGML_TYPE_F16 \<and> type s1 = GGML_TYPE_F32 then
                 Inr (2 * word_of_int (ggml_nelements s1))
               else if type s0 = GGML_TYPE_F32 \<and> type s1 = GGML_TYPE_F32 then Inr 0
               else Inl GGML_assert_failed
           | _ \<Rightarrow> Inl Null_deref)
      | _ \<Rightarrow> Inl Null_deref)"

fun schedule :: "int \<Rightarrow> handle list \<Rightarrow> size_t \<Rightarrow> ggml_context \<Rightarrow> size_t result" where
  "schedule nthreads [] ws ctx = (Inr ws, ctx)"
| "schedule nthreads (node # rest) ws ctx =
     get_tensor ctx node (\<lambda>t.
       case node_n_tasks nthreads (op t) of
         Inl e \<Rightarrow> (Inl e, ctx)
       | Inr k \<Rightarrow>
           (let c = upd_tensor node (\<lambda>t. t\<lparr>n_tasks := k\<rparr>) ctx
            in if op t = GGML_OP_MUL_MAT then
                 (case mul_mat_work_size c (t\<lparr>n_tasks := k\<rparr>) k of
                    Inl e \<Rightarrow> (Inl e, c)
                  | Inr cur \<Rightarrow> schedule nthreads rest (max ws cur) c)
               else schedule nthreads rest ws c))"

text \<open>
  One node: INIT on the main thread, then COMPUTE and FINALIZE on the main thread
  (\<open>ith = 0\<close>, \<open>nth = n_tasks\<close>) and, when \<open>n_tasks > 1\<close>, on the workers \<open>ith = 1, ...,
  n_threads - 1\<close> with \<open>nth = n_threads\<close>. The threads of a phase run concurrently in C and
  meet at the barrier after it; here they run one after the other in the order of \<open>ith\<close>.
\<close>

definition phase_params ::
  "ggml_task_type \<Rightarrow> int \<Rightarrow> int \<Rightarrow> size_t \<Rightarrow> size_t option \<Rightarrow> ggml_compute_params list" where
  "phase_params ty ntasks nthreads ws wd =
     \<lparr>task = ty, ith = 0, nth = ntasks, wsize = ws, wdata = wd\<rparr> #
     (if ntasks > 1
      then map (\<lambda>j. \<lparr>task = ty, ith = j + 1, nth = nthreads, wsize = ws, wdata = wd\<rparr>)
             (int_range 0 (nthreads - 1))
      else [])"

definition compute_node :: "int \<Rightarrow> size_t \<Rightarrow> size_t option \<Rightarrow> handle \<Rightarrow> ggml_context \<Rightarrow> unit result" where
  "compute_node nthreads ws wd node ctx =
     get_tensor ctx node (\<lambda>t.
       bind (ggml_compute_forward \<lparr>task = GGML_TASK_INIT, ith = 0, nth = n_tasks t, wsize = ws, wdata = wd\<rparr>
               node ctx) (\<lambda>_.
       bind' (mfold (\<lambda>ps. ggml_compute_forward ps node)
               (phase_params GGML_TASK_COMPUTE (n_tasks t) nthreads ws wd))
             (mfold (\<lambda>ps. ggml_compute_forward ps node)
               (phase_params GGML_TASK_FINALIZE (n_tasks t) nthreads ws wd))))"

definition ggml_graph_compute :: "size_t \<Rightarrow> ggml_context \<Rightarrow> ggml_cgraph \<Rightarrow> ggml_cgraph result" where
  "ggml_graph_compute tsz ctx cgraph =
     (let nthreads = (if n_threads cgraph \<le> 0 then 8 else n_threads cgraph);
          g1 = cgraph\<lparr>n_threads := nthreads\<rparr>
      in bind (schedule nthreads (nodes g1) 0 ctx) (\<lambda>wsz c.
           if work g1 \<noteq> None \<and> work_size g1 < wsz then (Inl Assert_failed, c)
           else
             bind (if 0 < wsz \<and> work g1 = None then
                     (let ws = wsz + CACHE_LINE_SIZE * word_of_int (nthreads - 1)
                      in bind (ggml_new_tensor_1d tsz c GGML_TYPE_I8 (sint (ucast ws :: 32 word))) (\<lambda>w c.
                           (Inr (g1\<lparr>work_size := ws, work := Some w\<rparr>), c)))
                   else (Inr g1, c)) (\<lambda>g2 c.
               bind (case work g2 of
                       None \<Rightarrow> (Inr (0, None), c)
                     | Some w \<Rightarrow> get_tensor c w (\<lambda>wt.
                         case ggml_nbytes wt of None \<Rightarrow> (Inl Out_of_bounds, c)
                         | Some n \<Rightarrow> (Inr (n, Some (data wt)), c))) (\<lambda>wp c.
                 bind (mfold (compute_node nthreads (fst wp) (snd wp)) (nodes g2) c) (\<lambda>_ c.
                   (Inr g2, c))))))"

subsection \<open>The cells a ROPE run writes\<close>








subsection \<open>The cells a MUL_MAT run writes\<close>

text \<open>
  \<open>dot m n x y\<close> is the sum \<^verbatim>\<open>ggml_vec_dot_f32\<close> accumulates over \<open>n\<close> elements at \<open>x\<close> and \<open>y\<close>, in
  the order of the loop. For a row number \<open>ir\<close> of \<open>src0\<close>, \<open>mm_i03\<close>, \<open>mm_i02\<close> and \<open>mm_i01\<close>
  are the indices the kernel derives from it; for a pair \<open>(ir, ic)\<close> of a row of \<open>src0\<close> and a row
  of \<open>src1\<close>, \<open>mm_dst\<close> is the cell written and \<open>mm_x\<close>, \<open>mm_y\<close> are the starts of the two rows read.
  \<open>mm_index\<close> lists the pairs one thread visits, in order, and \<open>mm_reads\<close> the cells it reads.
  \<open>write_step\<close> is one store \<open>m[D j] := V j m\<close>.
\<close>

definition dot :: "(size_t \<Rightarrow> real) \<Rightarrow> int \<Rightarrow> size_t \<Rightarrow> size_t \<Rightarrow> real" where
  "dot m n x y = fold (\<lambda>i sumf. sumf + m (x + 4 * of_nat i) * m (y + 4 * of_nat i)) [0..<nat n] 0"

definition mm_i03 :: "ggml_tensor \<Rightarrow> int \<Rightarrow> int" where
  "mm_i03 s0 ir = c_div ir (ne s0 ! 2 * ne s0 ! 1)"

definition mm_i02 :: "ggml_tensor \<Rightarrow> int \<Rightarrow> int" where
  "mm_i02 s0 ir = c_div (ir - mm_i03 s0 ir * ne s0 ! 2 * ne s0 ! 1) (ne s0 ! 1)"

definition mm_i01 :: "ggml_tensor \<Rightarrow> int \<Rightarrow> int" where
  "mm_i01 s0 ir = ir - mm_i03 s0 ir * ne s0 ! 2 * ne s0 ! 1 - mm_i02 s0 ir * ne s0 ! 1"

definition mm_dst :: "ggml_tensor \<Rightarrow> ggml_tensor \<Rightarrow> int \<times> int \<Rightarrow> size_t" where
  "mm_dst s0 dst = (\<lambda>(ir, ic).
     data dst + word_of_int (mm_i01 s0 ir * uint (nb dst ! 0) + ic * uint (nb dst ! 1)
                             + mm_i02 s0 ir * uint (nb dst ! 2) + mm_i03 s0 ir * uint (nb dst ! 3)))"

definition mm_x :: "ggml_tensor \<Rightarrow> int \<times> int \<Rightarrow> size_t" where
  "mm_x s0 = (\<lambda>(ir, ic).
     data s0 + word_of_int (mm_i01 s0 ir * uint (nb s0 ! 1) + mm_i02 s0 ir * uint (nb s0 ! 2)
                            + mm_i03 s0 ir * uint (nb s0 ! 3)))"

definition mm_y :: "ggml_tensor \<Rightarrow> ggml_tensor \<Rightarrow> int \<times> int \<Rightarrow> size_t" where
  "mm_y s0 s1 = (\<lambda>(ir, ic).
     data s1 + word_of_int (ic * uint (nb s1 ! 1) + mm_i02 s0 ir * uint (nb s1 ! 2)
                            + mm_i03 s0 ir * uint (nb s1 ! 3)))"

definition mm_index :: "ggml_compute_params \<Rightarrow> ggml_tensor \<Rightarrow> ggml_tensor \<Rightarrow> (int \<times> int) list" where
  "mm_index params s0 s1 =
     (let nr = ne s0 ! 1 * ne s0 ! 2 * ne s0 ! 3;
          dr = c_div (nr + nth params - 1) (nth params);
          ir0 = dr * ith params;
          ir1 = min (ir0 + dr) nr
      in List.product (int_range ir0 ir1) (int_range 0 (ne s1 ! 1)))"

definition mm_reads :: "ggml_compute_params \<Rightarrow> ggml_tensor \<Rightarrow> ggml_tensor \<Rightarrow> size_t list" where
  "mm_reads params s0 s1 =
     concat (map (\<lambda>j. map (\<lambda>i. mm_x s0 j + 4 * of_nat i) [0..<nat (ne s0 ! 0)] @
                      map (\<lambda>i. mm_y s0 s1 j + 4 * of_nat i) [0..<nat (ne s0 ! 0)])
               (mm_index params s0 s1))"

definition write_step :: "('i \<Rightarrow> size_t) \<Rightarrow> ('i \<Rightarrow> (size_t \<Rightarrow> real) \<Rightarrow> real) \<Rightarrow> 'i \<Rightarrow> (size_t \<Rightarrow> real) \<Rightarrow> (size_t \<Rightarrow> real)" where
  "write_step D V j m = m(D j := V j m)"


section \<open>Example inputs\<close>

text \<open>
  \<open>tsz_ex\<close> is an example value for \<^verbatim>\<open>sizeof(struct ggml_tensor)\<close>, a multiple of
  \<^verbatim>\<open>GGML_MEM_ALIGN\<close> as the \<^verbatim>\<open>static_assert\<close> of the source demands. \<open>arena_ex n m\<close> is the
  context \<^verbatim>\<open>ggml_init\<close> makes from a caller's buffer of \<open>n\<close> bytes whose F32 cells read \<open>m\<close>.
\<close>

definition tsz_ex :: size_t where
  "tsz_ex = 160"

definition arena_ex :: "size_t \<Rightarrow> (size_t \<Rightarrow> real) \<Rightarrow> ggml_context" where
  "arena_ex n m = fresh_context \<lparr>ip_mem_size = n, ip_mem_buffer = Some (m, \<lambda>_. 0)\<rparr> (m, \<lambda>_. 0)"

text \<open>A parameter \<open>a\<close> of three elements and a constant \<open>b\<close> of the same shape, then
  \<^verbatim>\<open>ggml_repeat(ctx, a, b)\<close>; the result is \<open>(a, b, r)\<close> with \<open>r\<close> the handle returned.\<close>

definition repeat_param_ex :: "(handle \<times> handle \<times> handle) result" where
  "repeat_param_ex =
     bind (ggml_new_tensor_1d tsz_ex (arena_ex 65536 (\<lambda>_. 0)) GGML_TYPE_F32 3) (\<lambda>a c.
     bind (ggml_set_param tsz_ex c a) (\<lambda>_ c.
     bind (ggml_new_tensor_1d tsz_ex c GGML_TYPE_F32 3) (\<lambda>b c.
     bind (ggml_repeat tsz_ex c a b) (\<lambda>r c. (Inr (a, b, r), c)))))"

text \<open>A parameter \<open>x\<close> of one element and \<open>t = relu(x)\<close>; the result is \<open>(x, t)\<close>.\<close>

definition relu_ex :: "(handle \<times> handle) result" where
  "relu_ex =
     bind (ggml_new_tensor_1d tsz_ex (arena_ex 65536 (\<lambda>_. 0)) GGML_TYPE_F32 1) (\<lambda>x c.
     bind (ggml_set_param tsz_ex c x) (\<lambda>_ c.
     bind (ggml_relu tsz_ex c x) (\<lambda>t c. (Inr (x, t), c))))"

text \<open>A tensor header with opcode \<open>opc\<close> over a parameter \<open>x\<close>, with a gradient, as the
  constructors of the operators leave it.\<close>

definition node_ex :: "ggml_op \<Rightarrow> (handle \<times> handle) result" where
  "node_ex opc =
     bind (ggml_new_tensor_1d tsz_ex (arena_ex 65536 (\<lambda>_. 0)) GGML_TYPE_F32 1) (\<lambda>x c.
     bind (ggml_set_param tsz_ex c x) (\<lambda>_ c.
     bind (ggml_dup_tensor tsz_ex c x) (\<lambda>t c.
     bind (set_node tsz_ex opc True (Some x) None t c) (\<lambda>_ c. (Inr (x, t), c)))))"

text \<open>Two constants \<open>a\<close> and \<open>b\<close> of three elements; the result is \<open>(a, b)\<close>.\<close>

definition two_consts_ex :: "(handle \<times> handle) result" where
  "two_consts_ex =
     bind (ggml_new_tensor_1d tsz_ex (arena_ex 65536 (\<lambda>_. 0)) GGML_TYPE_F32 3) (\<lambda>a c.
     bind (ggml_new_tensor_1d tsz_ex c GGML_TYPE_F32 3) (\<lambda>b c. (Inr (a, b), c)))"

text \<open>A 3-by-2 parameter \<open>a\<close>, a 3-by-4 constant \<open>b\<close> and \<open>t = mul_mat(a, b)\<close>; the result is
  \<open>(a, b, t)\<close>.\<close>

definition mul_mat_param_ex :: "(handle \<times> handle \<times> handle) result" where
  "mul_mat_param_ex =
     bind (ggml_new_tensor_2d tsz_ex (arena_ex 65536 (\<lambda>_. 0)) GGML_TYPE_F32 3 2) (\<lambda>a c.
     bind (ggml_set_param tsz_ex c a) (\<lambda>_ c.
     bind (ggml_new_tensor_2d tsz_ex c GGML_TYPE_F32 3 4) (\<lambda>b c.
     bind (ggml_mul_mat tsz_ex c a b) (\<lambda>t c. (Inr (a, b, t), c)))))"



text \<open>
  Scenario S5 and its siblings: a parameter \<open>x\<close> with value \<open>v\<close>, \<open>f = ctor(x)\<close> for a
  unary constructor, \<^verbatim>\<open>ggml_build_forward\<close>, \<^verbatim>\<open>ggml_build_backward\<close> (without \<^verbatim>\<open>keep\<close>),
  optionally \<^verbatim>\<open>ggml_graph_reset\<close> on the forward graph, \<open>f.grad = 1\<close>, \<^verbatim>\<open>ggml_graph_compute\<close> on
  the backward graph, and the value read from \<open>x.grad\<close>. \<open>m\<close> is what the arena's F32 cells
  hold before the first allocation, 4096 stands for \<^verbatim>\<open>GGML_MAX_NODES\<close>.
\<close>

definition unary_ex ::
  "(size_t \<Rightarrow> ggml_context \<Rightarrow> handle \<Rightarrow> handle result) \<Rightarrow> (size_t \<Rightarrow> real) \<Rightarrow> (handle \<times> handle) result" where
  "unary_ex ctor m =
     bind (ggml_new_tensor_1d tsz_ex (arena_ex 65536 m) GGML_TYPE_F32 1) (\<lambda>x c.
     bind (ggml_set_param tsz_ex c x) (\<lambda>_ c.
     bind (ctor tsz_ex c x) (\<lambda>f c. (Inr (x, f), c))))"

definition unary_grad_ex ::
  "(size_t \<Rightarrow> ggml_context \<Rightarrow> handle \<Rightarrow> handle result) \<Rightarrow> bool \<Rightarrow> real \<Rightarrow> (size_t \<Rightarrow> real) \<Rightarrow>
     (error + real) option" where
  "unary_grad_ex ctor reset v m =
     (case unary_ex ctor m of
        (Inl e, c) \<Rightarrow> Some (Inl e)
      | (Inr (x, f), c) \<Rightarrow>
     (case ggml_set_f32 c x v of
        (Inl e, c) \<Rightarrow> Some (Inl e)
      | (Inr _, c) \<Rightarrow>
     (case ggml_build_forward 4096 (tensors c) f of
        None \<Rightarrow> None
      | Some (Inl e) \<Rightarrow> Some (Inl e)
      | Some (Inr gf) \<Rightarrow>
     (case ggml_build_backward tsz_ex 4096 c gf False of
        None \<Rightarrow> None
      | Some (Inl e, c) \<Rightarrow> Some (Inl e)
      | Some (Inr (gf', gb), c) \<Rightarrow>
     (case (if reset then ggml_graph_reset gf' c else (Inr (), c)) of
        (Inl e, c) \<Rightarrow> Some (Inl e)
      | (Inr _, c) \<Rightarrow>
     (case tensor_grad f c of
        (Inl e, c) \<Rightarrow> Some (Inl e)
      | (Inr fg, c) \<Rightarrow>
     (case ggml_set_f32 c fg 1 of
        (Inl e, c) \<Rightarrow> Some (Inl e)
      | (Inr _, c) \<Rightarrow>
     (case ggml_graph_compute tsz_ex c gb of
        (Inl e, c) \<Rightarrow> Some (Inl e)
      | (Inr _, c) \<Rightarrow>
     (case tensor_grad x c of
        (Inl e, c) \<Rightarrow> Some (Inl e)
      | (Inr xg, c) \<Rightarrow> Some (ggml_get_f32_1d c xg 0))))))))))"

text \<open>
  Scenario S2: \<open>a\<close> with rows \<open>[1,2,3]\<close>, \<open>[4,5,6]\<close> (\<open>ne = {3, 2}\<close>), \<open>b\<close> with rows \<open>[1,0,0]\<close>,
  \<open>[0,1,0]\<close>, \<open>[0,0,1]\<close>, \<open>[1,1,1]\<close> (\<open>ne = {3, 4}\<close>), \<open>t = mul_mat(a, b)\<close>, the forward graph of
  \<open>t\<close> computed with \<open>nthr\<close> threads (0 for the default), and the elements of \<open>t\<close> in memory
  order. \<open>fill\<close> stores a list of values with \<^verbatim>\<open>ggml_set_f32_1d\<close>.
\<close>

definition fill :: "handle \<Rightarrow> real list \<Rightarrow> ggml_context \<Rightarrow> unit result" where
  "fill h vs = mfold (\<lambda>iv. ggml_set_f32_1d h (int (fst iv)) (snd iv)) (zip [0..<length vs] vs)"

definition read_all :: "ggml_context \<Rightarrow> handle \<Rightarrow> nat \<Rightarrow> (error + real) list" where
  "read_all ctx h n = map (\<lambda>i. ggml_get_f32_1d ctx h (int i)) [0..<n]"

definition mul_mat_ex :: "int \<Rightarrow> (size_t \<Rightarrow> real) \<Rightarrow> (error + int list \<times> (error + real) list) option" where
  "mul_mat_ex nthr m =
     (case bind (ggml_new_tensor_2d tsz_ex (arena_ex 65536 m) GGML_TYPE_F32 3 2) (\<lambda>a c.
           bind (ggml_new_tensor_2d tsz_ex c GGML_TYPE_F32 3 4) (\<lambda>b c.
           bind (ggml_mul_mat tsz_ex c a b) (\<lambda>t c.
           bind (fill a [1, 2, 3, 4, 5, 6] c) (\<lambda>_ c.
           bind (fill b [1, 0, 0, 0, 1, 0, 0, 0, 1, 1, 1, 1] c) (\<lambda>_ c. (Inr t, c)))))) of
        (Inl e, c) \<Rightarrow> Some (Inl e)
      | (Inr t, c) \<Rightarrow>
     (case ggml_build_forward 4096 (tensors c) t of
        None \<Rightarrow> None
      | Some (Inl e) \<Rightarrow> Some (Inl e)
      | Some (Inr gf) \<Rightarrow>
     (case ggml_graph_compute tsz_ex c (gf\<lparr>n_threads := nthr\<rparr>) of
        (Inl e, c) \<Rightarrow> Some (Inl e)
      | (Inr _, c) \<Rightarrow>
          Some (Inr (case tensors c t of None \<Rightarrow> [] | Some tt \<Rightarrow> ne tt, read_all c t 8)))))"

text \<open>
  A vector \<open>a\<close> of three elements (\<open>n_dims = 1\<close>) and a matrix \<open>b\<close> with four rows of three
  elements (\<open>n_dims = 2\<close>), for which \<^verbatim>\<open>ggml_can_mul_mat\<close> holds, and \<open>t = mul_mat(a, b)\<close>; the
  result is \<open>(a, b, t)\<close>.
\<close>

definition mul_mat_vec_ex :: "(handle \<times> handle \<times> handle) result" where
  "mul_mat_vec_ex =
     bind (ggml_new_tensor_1d tsz_ex (arena_ex 65536 (\<lambda>_. 0)) GGML_TYPE_F32 3) (\<lambda>a c.
     bind (ggml_new_tensor_2d tsz_ex c GGML_TYPE_F32 3 4) (\<lambda>b c.
     bind (ggml_mul_mat tsz_ex c a b) (\<lambda>t c. (Inr (a, b, t), c))))"

text \<open>
  Scenario S4: a tensor with \<open>ne = {2, 1, 2}\<close> holding \<open>[1, 0]\<close> at both positions (the
  position is the index in dimension 2), \<open>r = rope(a, n_past = 0, n_dims = 2, mode = 0)\<close>, and
  the four cells of \<open>r\<close> after the COMPUTE call of the kernel through
  \<^verbatim>\<open>ggml_compute_forward\<close>. \<open>rope_ctx\<close> is the context before the call.
\<close>

definition rope_ctx :: "(size_t \<Rightarrow> real) \<Rightarrow> handle result" where
  "rope_ctx m =
     bind (ggml_new_tensor_3d tsz_ex (arena_ex 65536 m) GGML_TYPE_F32 2 1 2) (\<lambda>a c.
     bind (fill a [1, 0, 1, 0] c) (\<lambda>_ c. ggml_rope tsz_ex c a 0 2 0))"

definition rope_ex :: "(size_t \<Rightarrow> real) \<Rightarrow> error + (error + real) list" where
  "rope_ex m =
     (case rope_ctx m of
        (Inl e, c) \<Rightarrow> Inl e
      | (Inr r, c) \<Rightarrow>
          (case ggml_compute_forward
                  \<lparr>task = GGML_TASK_COMPUTE, ith = 0, nth = 1, wsize = 0, wdata = None\<rparr> r c of
             (Inl e, c) \<Rightarrow> Inl e
           | (Inr _, c) \<Rightarrow> Inr (read_all c r 4)))"

text \<open>
  A contiguous F32 matrix with \<open>n1\<close> rows of \<open>n0\<close> elements whose payload starts at \<open>d\<close>.
\<close>

definition f32_matrix :: "size_t \<Rightarrow> int \<Rightarrow> int \<Rightarrow> ggml_tensor" where
  "f32_matrix d n0 n1 =
     \<lparr>type = GGML_TYPE_F32, n_dims = 2, ne = [n0, n1, 1, 1],
      nb = [4, 4 * word_of_int n0, 4 * word_of_int (n0 * n1), 4 * word_of_int (n0 * n1)],
      op = GGML_OP_NONE, is_param = False, grad = None, src0 = None, src1 = None,
      opt = replicate GGML_MAX_OPT None, n_tasks = 1, data = d\<rparr>"


section \<open>Arena: exhaustion and used memory\<close>

lemma bind_Inr [simp]: "bind (Inr v, c) f = f v c"
  by (simp add: bind_def)

lemma bind_Inl [simp]: "bind (Inl e, c) f = (Inl e, c)"
  by (simp add: bind_def)

lemmas ctor_defs =
  ggml_new_tensor_1d_def ggml_new_tensor_2d_def ggml_new_tensor_def ggml_new_tensor_impl_def
  size_needed_def cur_end_def objects_end_def GGML_MEM_ALIGN_def GGML_OBJECT_SIZE_def
  ggml_aligned_def GGML_MAX_DIMS_def GGML_MAX_OPT_def tsz_ex_def arena_ex_def fresh_context_def
  ggml_set_param_def get_tensor_def upd_tensor_def ggml_dup_tensor_def ggml_view_tensor_def
  ggml_unary_impl_def ggml_binary_impl_def set_node_def new_grad_def
  ggml_sqr_def ggml_sqr_impl_def ggml_mul_def ggml_mul_impl_def ggml_add_impl_def

lemma replicate_numeral: "replicate (numeral k) x = x # replicate (pred_numeral k) x"
  by (simp add: numeral_eq_Suc)

lemma objects_end_Nil [simp]: "objects ctx = [] \<Longrightarrow> objects_end ctx = None"
  by (simp add: objects_end_def)

lemma objects_end_last [simp]: "objects ctx \<noteq> [] \<Longrightarrow> objects_end ctx = Some (last (objects ctx))"
  by (simp add: objects_end_def)

lemma new_tensor_impl_objects:
  assumes "ggml_new_tensor_impl tsz ctx ty nd nes dat = (Inr h, ctx')"
  shows "\<exists>sz. objects ctx' = objects ctx @ [\<lparr>obj_offset = h, obj_size = sz\<rparr>]"
  using assms
  by (auto simp: ggml_new_tensor_impl_def Let_def split: sum.splits if_splits option.splits)



text \<open>
  Claim C10. \<^verbatim>\<open>ggml_used_mem\<close> reads \<^verbatim>\<open>ctx->objects_end->offset + ctx->objects_end->size\<close>
  with no NULL test. On the context \<^verbatim>\<open>ggml_init\<close> returns \<^verbatim>\<open>objects_end\<close> is NULL and the read is
  a NULL dereference; once an object has been allocated (as after every successful
  \<^verbatim>\<open>ggml_new_tensor_impl\<close>) the read is defined and is the end of the last object. The NULL
  dereference happens exactly on an empty object list.
\<close>

theorem used_mem_needs_allocation:
  "(ggml_init gs fresh params = (gs', Some (i, c0)) \<longrightarrow> ggml_used_mem c0 = Inl Null_deref) \<and>
   (objects ctx \<noteq> [] \<longrightarrow>
      ggml_used_mem ctx = Inr (obj_offset (last (objects ctx)) + obj_size (last (objects ctx)))) \<and>
   (ggml_new_tensor_impl tsz ctx' ty nd nes dat = (Inr h, ctx'') \<longrightarrow> objects ctx'' \<noteq> []) \<and>
   (ggml_used_mem ctx = Inl Null_deref \<longleftrightarrow> objects ctx = [])"
proof (intro conjI impI)
  assume "ggml_init gs fresh params = (gs', Some (i, c0))"
  then have "c0 = fresh_context params fresh"
    by (auto simp: ggml_init_def Let_def split: option.splits)
  then show "ggml_used_mem c0 = Inl Null_deref"
    by (simp add: ggml_used_mem_def fresh_context_def Let_def)
next
  assume "objects ctx \<noteq> []"
  then show "ggml_used_mem ctx = Inr (obj_offset (last (objects ctx)) + obj_size (last (objects ctx)))"
    by (simp add: ggml_used_mem_def)
next
  assume "ggml_new_tensor_impl tsz ctx' ty nd nes dat = (Inr h, ctx'')"
  from new_tensor_impl_objects [OF this] show "objects ctx'' \<noteq> []" by auto
next
  show "ggml_used_mem ctx = Inl Null_deref \<longleftrightarrow> objects ctx = []"
    by (cases "objects ctx = []") (simp_all add: ggml_used_mem_def)
qed

theorem used_mem_needs_allocation_witness:
  "ggml_used_mem (fresh_context \<lparr>ip_mem_size = 65536, ip_mem_buffer = None\<rparr> (\<lambda>_. 0, \<lambda>_. 0))
     = Inl Null_deref \<and>
   ggml_used_mem (snd two_consts_ex) = Inr 416 \<and>
   objects (snd (ggml_new_tensor_1d tsz_ex (arena_ex 65536 (\<lambda>_. 0)) GGML_TYPE_F32 3)) \<noteq> []"
proof -
  let ?gs = "\<lparr>contexts_used = [False, False], first_time = True\<rparr>"
  let ?p = "\<lparr>ip_mem_size = 65536, ip_mem_buffer = None\<rparr>"
  let ?f = "(\<lambda>_. 0, \<lambda>_. 0) :: (size_t \<Rightarrow> real) \<times> (size_t \<Rightarrow> int)"
  let ?a = "arena_ex 65536 (\<lambda>_. 0)"
  have i: "ggml_init ?gs ?f ?p
      = (\<lparr>contexts_used = [True, False], first_time = False\<rparr>, Some (0, fresh_context ?p ?f))"
    by (simp add: ggml_init_def)
  have o: "objects (snd two_consts_ex) \<noteq> []"
    by code_simp
  have l: "obj_offset (last (objects (snd two_consts_ex))) + obj_size (last (objects (snd two_consts_ex))) = 416"
    by code_simp
  have n: "ggml_new_tensor_impl tsz_ex ?a GGML_TYPE_F32 1 [3] None
      = (Inr 32, snd (ggml_new_tensor_impl tsz_ex ?a GGML_TYPE_F32 1 [3] None))"
    by (simp add: ggml_new_tensor_impl_def size_needed_def tsz_ex_def arena_ex_def fresh_context_def
        cur_end_def GGML_MEM_ALIGN_def GGML_OBJECT_SIZE_def ggml_aligned_def GGML_MAX_DIMS_def)
  from used_mem_needs_allocation [where gs = ?gs and fresh = ?f and params = ?p and i = 0
      and ?c0.0 = "fresh_context ?p ?f" and ctx = "snd two_consts_ex" and tsz = tsz_ex
      and ctx' = ?a and ty = GGML_TYPE_F32 and nd = 1 and nes = "[3]" and dat = None and h = 32
      and ctx'' = "snd (ggml_new_tensor_impl tsz_ex ?a GGML_TYPE_F32 1 [3] None)"]
    i o l n
  show ?thesis
    by (simp add: ggml_new_tensor_1d_def ggml_new_tensor_def)
qed

section \<open>Repeat on equal shapes\<close>

text \<open>
  Claim C5, as the code has it. \<^verbatim>\<open>ggml_repeat\<close> returns \<open>a\<close> itself, with the context untouched
  (no object allocated, nothing copied), when \<open>a\<close> and \<open>b\<close> have the same shape and \<open>a\<close> has no
  gradient: the early return is guarded by \<^verbatim>\<open>ggml_are_same_shape(a, b) && !is_node\<close>.
  \<open>ggml_can_repeat\<close> is the constructor's asserted precondition.
\<close>

theorem ggml_repeat_same_shape_no_grad:
  assumes "tensors ctx a = Some ta" and "tensors ctx b = Some tb"
    and "ggml_can_repeat ta tb" and "ggml_are_same_shape ta tb" and "grad ta = None"
  shows "ggml_repeat tsz ctx a b = (Inr a, ctx)"
  using assms by (simp add: ggml_repeat_def get_tensor_def)

theorem ggml_repeat_same_shape_no_grad_witness:
  "fst two_consts_ex = Inr (32, 240) \<and>
   ggml_repeat tsz_ex (snd two_consts_ex) 32 240 = (Inr 32, snd two_consts_ex)"
proof -
  let ?c = "snd two_consts_ex"
  have 0: "fst two_consts_ex = Inr (32, 240)" by code_simp
  have 1: "tensors ?c 32 = Some (the (tensors ?c 32))" by code_simp
  have 2: "tensors ?c 240 = Some (the (tensors ?c 240))" by code_simp
  have 3: "ggml_can_repeat (the (tensors ?c 32)) (the (tensors ?c 240))" by code_simp
  have 4: "ggml_are_same_shape (the (tensors ?c 32)) (the (tensors ?c 240))" by code_simp
  have 5: "grad (the (tensors ?c 32)) = None" by code_simp
  from 0 ggml_repeat_same_shape_no_grad [OF 1 2 3 4 5, of tsz_ex] show ?thesis by simp
qed

text \<open>
  Claim C5 as stated fails for a tensor with a gradient: for the parameter \<open>a\<close> (at 32) and the
  constant \<open>b\<close> (at 448) of the same shape, \<^verbatim>\<open>ggml_repeat\<close> allocates a new REPEAT node
  (at 656) with its own gradient tensor, and the context has five objects instead of three.
\<close>

theorem ggml_repeat_same_shape_param_counterexample:
  "fst repeat_param_ex = Inr (32, 448, 656) \<and>
   map_option ne (tensors (snd repeat_param_ex) 32) = Some [3, 1, 1, 1] \<and>
   map_option ne (tensors (snd repeat_param_ex) 448) = Some [3, 1, 1, 1] \<and>
   map_option grad (tensors (snd repeat_param_ex) 32) = Some (Some 240) \<and>
   map_option op (tensors (snd repeat_param_ex) 656) = Some GGML_OP_REPEAT \<and>
   n_objects (snd repeat_param_ex) = 5"
  by code_simp

section \<open>Backward rules\<close>

text \<open>
  Claim C6, as the code has it. \<^verbatim>\<open>ggml_compute_backward\<close> on a node whose opcode is MEAN, GELU
  or NORM fails the \<^verbatim>\<open>assert(false)\<close> of its case; on SCALE, CPY, RESHAPE, VIEW, PERMUTE,
  TRANSPOSE, GET_ROWS, DIAG_MASK_INF, SOFT_MAX, ROPE, CONV_1D_1S, CONV_1D_2S, FLASH_ATTN,
  FLASH_FF (and the sentinel COUNT) it fails \<^verbatim>\<open>GGML_ASSERT(false)\<close>; on MUL_MAT it fails
  \<^verbatim>\<open>assert(false)\<close> when the first operand has a gradient. In each case nothing has been
  changed when the assertion fails.
\<close>

theorem compute_backward_unsupported:
  assumes "tensors ctx tensor = Some t"
  shows
    "(op t \<in> {GGML_OP_MEAN, GGML_OP_GELU, GGML_OP_NORM} \<longrightarrow>
        ggml_compute_backward tsz ctx tensor inplace = (Inl Assert_failed, ctx)) \<and>
     (op t \<in> {GGML_OP_SCALE, GGML_OP_CPY, GGML_OP_RESHAPE, GGML_OP_VIEW, GGML_OP_PERMUTE,
              GGML_OP_TRANSPOSE, GGML_OP_GET_ROWS, GGML_OP_DIAG_MASK_INF, GGML_OP_SOFT_MAX,
              GGML_OP_ROPE, GGML_OP_CONV_1D_1S, GGML_OP_CONV_1D_2S, GGML_OP_FLASH_ATTN,
              GGML_OP_FLASH_FF, GGML_OP_COUNT} \<longrightarrow>
        ggml_compute_backward tsz ctx tensor inplace = (Inl GGML_assert_failed, ctx)) \<and>
     (op t = GGML_OP_MUL_MAT \<and> src0 t = Some a \<and> tensors ctx a = Some ta \<and> grad ta \<noteq> None \<longrightarrow>
        ggml_compute_backward tsz ctx tensor inplace = (Inl Assert_failed, ctx))"
  using assms
  by (auto simp: ggml_compute_backward_def get_tensor_def deref_grad_def)

theorem compute_backward_unsupported_witness:
  "ggml_compute_backward tsz_ex (snd (node_ex GGML_OP_GELU)) 448 False
     = (Inl Assert_failed, snd (node_ex GGML_OP_GELU)) \<and>
   ggml_compute_backward tsz_ex (snd (node_ex GGML_OP_SOFT_MAX)) 448 False
     = (Inl GGML_assert_failed, snd (node_ex GGML_OP_SOFT_MAX)) \<and>
   ggml_compute_backward tsz_ex (snd mul_mat_param_ex) 720 False
     = (Inl Assert_failed, snd mul_mat_param_ex)"
proof -
  let ?g = "snd (node_ex GGML_OP_GELU)"
  let ?s = "snd (node_ex GGML_OP_SOFT_MAX)"
  let ?m = "snd mul_mat_param_ex"
  have g: "tensors ?g 448 = Some (the (tensors ?g 448))" "op (the (tensors ?g 448)) = GGML_OP_GELU"
    by code_simp+
  have s: "tensors ?s 448 = Some (the (tensors ?s 448))" "op (the (tensors ?s 448)) = GGML_OP_SOFT_MAX"
    by code_simp+
  have m: "tensors ?m 720 = Some (the (tensors ?m 720))" "op (the (tensors ?m 720)) = GGML_OP_MUL_MAT"
    "src0 (the (tensors ?m 720)) = Some 32" "tensors ?m 32 = Some (the (tensors ?m 32))"
    "grad (the (tensors ?m 32)) \<noteq> None"
    by code_simp+
  from compute_backward_unsupported [OF g(1), where tsz = tsz_ex and inplace = False] g(2)
  have 1: "ggml_compute_backward tsz_ex ?g 448 False = (Inl Assert_failed, ?g)" by simp
  from compute_backward_unsupported [OF s(1), where tsz = tsz_ex and inplace = False] s(2)
  have 2: "ggml_compute_backward tsz_ex ?s 448 False = (Inl GGML_assert_failed, ?s)" by simp
  from compute_backward_unsupported [OF m(1), where a = 32 and ta = "the (tensors ?m 32)"
      and tsz = tsz_ex and inplace = False] m(2-5)
  have 3: "ggml_compute_backward tsz_ex ?m 720 False = (Inl Assert_failed, ?m)" by simp
  from 1 2 3 show ?thesis by simp
qed

lemma compute_backward_none:
  assumes "tensors ctx tensor = Some t" and "op t = GGML_OP_NONE"
  shows "ggml_compute_backward tsz ctx tensor inplace = (Inr (), ctx)"
  using assms by (simp add: ggml_compute_backward_def get_tensor_def)

text \<open>
  Claim C6 as stated fails for the opcode NONE, which has no backward rule either: on a
  parameter \<open>x\<close> (opcode NONE, gradient present), which \<^verbatim>\<open>ggml_build_backward\<close> does pass to
  \<^verbatim>\<open>ggml_compute_backward\<close>, the call returns normally and changes nothing
  (\<^verbatim>\<open>case GGML_OP_NONE: // nop\<close>).
\<close>

theorem compute_backward_none_counterexample:
  "map_option op (tensors (snd relu_ex) 32) = Some GGML_OP_NONE \<and>
   map_option grad (tensors (snd relu_ex) 32) = Some (Some 240) \<and>
   ggml_compute_backward tsz_ex (snd relu_ex) 32 False = (Inr (), snd relu_ex)"
proof -
  have 1: "tensors (snd relu_ex) 32 = Some (the (tensors (snd relu_ex) 32))"
    and 2: "op (the (tensors (snd relu_ex) 32)) = GGML_OP_NONE"
    and 3: "grad (the (tensors (snd relu_ex) 32)) = Some 240"
    by code_simp+
  from compute_backward_none [OF 1 2] 1 2 3 show ?thesis
    by (metis option.simps(9))
qed

text \<open>
  The RELU rule, as a graph. On \<open>t = relu(x)\<close> (\<open>x\<close> at 32 with gradient 240, \<open>t\<close> at 448 with
  gradient 656) \<^verbatim>\<open>ggml_compute_backward\<close> builds \<open>step(x)\<close> (at 864) and
  \<open>step(x) * t.grad\<close> (at 1280), and the new \<open>x.grad\<close> (at 1696) is the node
  \<open>SUB(x.grad, step(x) * t.grad)\<close>: the product is subtracted from the gradient, where the
  claim (and every other rule with a non-negative derivative, such as ABS) has it added.
\<close>

theorem relu_backward_builds_sub:
  "fst relu_ex = Inr (32, 448) \<and>
   fst (ggml_compute_backward tsz_ex (snd relu_ex) 448 False) = Inr () \<and>
   map_option grad (tensors (snd (ggml_compute_backward tsz_ex (snd relu_ex) 448 False)) 32)
     = Some (Some 1696) \<and>
   map_option (\<lambda>t. (op t, src0 t, src1 t))
       (tensors (snd (ggml_compute_backward tsz_ex (snd relu_ex) 448 False)) 1696)
     = Some (GGML_OP_SUB, Some 240, Some 1280) \<and>
   map_option (\<lambda>t. (op t, src0 t, src1 t))
       (tensors (snd (ggml_compute_backward tsz_ex (snd relu_ex) 448 False)) 1280)
     = Some (GGML_OP_MUL, Some 864, Some 656) \<and>
   map_option (\<lambda>t. (op t, src0 t, src1 t))
       (tensors (snd (ggml_compute_backward tsz_ex (snd relu_ex) 448 False)) 864)
     = Some (GGML_OP_STEP, Some 32, None)"
  by code_simp

section \<open>The graph builder\<close>

lemma visit_list_Nil [simp]: "visit_list mx T [] g = Some (Inr g)"
  by (subst visit_list.simps) simp

lemma visit_list_None [simp]: "visit_list mx T (None # rest) g = visit_list mx T rest g"
  by (subst visit_list.simps) simp

lemma visit_list_Some:
  "visit_list mx T (Some node # rest) g =
     (case T node of
        None \<Rightarrow> Some (Inl Null_deref)
      | Some t \<Rightarrow>
          if node \<in> set (nodes g) \<or> node \<in> set (leafs g) then visit_list mx T rest g
          else
            (case visit_list mx T (srcs t) g of
               None \<Rightarrow> None
             | Some (Inl e) \<Rightarrow> Some (Inl e)
             | Some (Inr g1) \<Rightarrow>
                 (case add_node mx node t g1 of
                    Inl e \<Rightarrow> Some (Inl e)
                  | Inr g2 \<Rightarrow> visit_list mx T rest g2)))"
  by (subst visit_list.simps) (simp split: option.splits sum.splits)

















section \<open>Gradients of unary operators, end to end\<close>

lemmas graph_defs =
  ggml_build_forward_def ggml_build_forward_impl_def ggml_visit_parents_def
  visit_list_Some add_node_def srcs_def empty_cgraph_def ggml_build_backward_def
  ggml_compute_backward_def if_grad_def deref_grad_def tensor_grad_def nonnull_def
  ggml_new_f32_def ggml_set_f32_def ggml_vec_set_f32_def ggml_repeat_def ggml_can_repeat_def
  divides_c_def c_rem_def ggml_are_same_shape_def ggml_nrows_def ggml_nelements_def
  ggml_graph_reset_def ggml_set_zero_def ggml_nbytes_def ggml_get_f32_1d_def
  replicate_numeral upt_conv_Cons

lemmas compute_defs =
  ggml_graph_compute_def node_n_tasks_def compute_node_def
  phase_params_def int_range_def bind'_def ggml_compute_forward_def with_src0_def with_src1_def
  ggml_compute_forward_add_f32_def compute_forward_binary_f32_def compute_forward_unary_f32_def
  ggml_compute_forward_mul_f32_def ggml_compute_forward_sub_f32_def
  ggml_compute_forward_sqr_f32_def ggml_compute_forward_step_f32_def
  ggml_compute_forward_relu_f32_def ggml_compute_forward_abs_f32_def
  ggml_compute_forward_sgn_f32_def
  is_init_or_finalize_def vec_map1_def vec_map2_def ggml_vec_add_f32_def ggml_vec_mul_f32_def
  ggml_vec_sub_f32_def ggml_vec_sqr_f32_def ggml_vec_step_f32_def ggml_vec_relu_f32_def
  ggml_vec_abs_f32_def ggml_vec_sgn_f32_def c_div_def

lemmas unary_ex_defs =
  unary_grad_ex_def unary_ex_def ggml_relu_def ggml_relu_impl_def ggml_step_def ggml_step_impl_def
  ggml_abs_def ggml_abs_impl_def ggml_sgn_def ggml_sgn_impl_def ggml_sub_impl_def



text \<open>
  Claim C4, end to end: for \<open>x = 1\<close>, \<open>t = relu(x)\<close> and \<open>t.grad = 1\<close>, with the gradients
  zeroed by \<^verbatim>\<open>ggml_graph_reset\<close>, the backward graph stores \<open>-1\<close> in \<open>x.grad\<close>, where the
  derivative of relu at 1 is \<open>+1\<close>. The sibling rule for ABS, which adds, stores \<open>+1\<close>.
\<close>

theorem relu_backward_value:
  "unary_grad_ex ggml_relu True 1 m = Some (Inr (- 1)) \<and>
   unary_grad_ex ggml_abs True 1 m = Some (Inr 1)"
  by (simp add: unary_ex_defs ctor_defs graph_defs compute_defs Let_def)

section \<open>The ROPE kernel\<close>


lemma fold_product: "fold (\<lambda>x. fold (g x) ys) xs = fold (\<lambda>(x, y). g x y) (List.product xs ys)"
proof (induction xs)
  case Nil
  show ?case by simp
next
  case (Cons x xs)
  have "fold (\<lambda>(x, y). g x y) (map (Pair x) ys) = fold (g x) ys"
    by (simp add: fold_map comp_def)
  with Cons show ?case by simp
qed






text \<open>Scenario S4 by evaluation, through \<^verbatim>\<open>ggml_compute_forward\<close>, for any prior content of the
  arena: position 0 keeps \<open>[1, 0]\<close>, position 1 becomes \<open>[cos 1, sin 1]\<close>.\<close>

lemma rope_scenario_S4: "rope_ex m = Inr (map Inr [1, 0, cos 1, sin 1])"
  by (simp add: rope_ex_def rope_ctx_def ggml_rope_def fill_def read_all_def ggml_set_f32_1d_def
      ggml_compute_forward_rope_f32_def rope_pair_def ggml_new_tensor_3d_def
      ctor_defs graph_defs compute_defs Let_def)

section \<open>Matrix multiplication\<close>

lemma new_tensor_impl_tensor:
  assumes "ggml_new_tensor_impl tsz ctx ty nd nes dat = (Inr h, ctx')"
  shows "\<exists>t. tensors ctx' = (tensors ctx)(h \<mapsto> t) \<and> type t = ty \<and> n_dims t = nd \<and>
             ne t = take (nat nd) nes @ replicate (GGML_MAX_DIMS - nat nd) 1 \<and>
             nat nd \<le> GGML_MAX_DIMS \<and> nat nd \<le> length nes"
  using assms
  by (auto simp: ggml_new_tensor_impl_def Let_def split: sum.splits if_splits option.splits)

lemma upd_tensor_tensors:
  "tensors (upd_tensor h f ctx) = (case tensors ctx h of None \<Rightarrow> tensors ctx | Some t \<Rightarrow> (tensors ctx)(h \<mapsto> f t))"
  by (simp add: upd_tensor_def split: option.splits)

lemma set_node_shape:
  assumes s: "set_node tsz opc is_node s0 s1 h ctx = (Inr r, ctx')"
    and t: "tensors ctx h = Some t"
    and wf: "ne t = take (nat (n_dims t)) nes @ replicate (GGML_MAX_DIMS - nat (n_dims t)) 1"
      "nat (n_dims t) \<le> length nes"
  shows "r = h \<and> (\<exists>t'. tensors ctx' h = Some t' \<and> type t' = type t \<and> ne t' = ne t)"
proof (cases is_node)
  case False
  with s t show ?thesis
    by (auto simp: set_node_def new_grad_def upd_tensor_tensors)
next
  case True
  let ?c1 = "upd_tensor h (\<lambda>t. t\<lparr>op := opc\<rparr>) ctx"
  have t1: "tensors ?c1 h = Some (t\<lparr>op := opc\<rparr>)"
    using t by (simp add: upd_tensor_tensors)
  have dup: "ggml_dup_tensor tsz ?c1 h = ggml_new_tensor_impl tsz ?c1 (type t) (n_dims t) (ne t) None"
    using t1 by (simp add: ggml_dup_tensor_def get_tensor_def)
  obtain e c2 where res: "ggml_new_tensor_impl tsz ?c1 (type t) (n_dims t) (ne t) None = (e, c2)"
    by (cases "ggml_new_tensor_impl tsz ?c1 (type t) (n_dims t) (ne t) None")
  from s True dup res have "\<exists>g. e = Inr g"
    by (cases e) (simp_all add: set_node_def new_grad_def)
  then obtain g where e: "e = Inr g" by blast
  from res e have d: "ggml_new_tensor_impl tsz ?c1 (type t) (n_dims t) (ne t) None = (Inr g, c2)"
    by simp
  from s True dup d have r: "r = h"
    "ctx' = upd_tensor h (\<lambda>t. t\<lparr>grad := Some g, src0 := s0, src1 := s1\<rparr>) c2"
    by (auto simp: set_node_def new_grad_def)
  from new_tensor_impl_tensor [OF d] obtain tg where
    tg: "tensors c2 = (tensors ?c1)(g \<mapsto> tg)" "type tg = type t"
      "ne tg = take (nat (n_dims t)) (ne t) @ replicate (GGML_MAX_DIMS - nat (n_dims t)) 1"
    by blast
  have "take (nat (n_dims t)) (ne t) = take (nat (n_dims t)) nes"
    using wf by (metis append_eq_conv_conj length_take min.absorb2 take_take take_append order_refl
        diff_self_eq_0 take0 append_Nil2)
  with tg(3) wf(1) have "ne tg = ne t" by simp
  with tg t1 obtain t2 where "tensors c2 h = Some t2" "type t2 = type t" "ne t2 = ne t"
    by (cases "g = h") auto
  with r show ?thesis by (auto simp: upd_tensor_tensors)
qed

lemma ggml_mul_mat_result:
  assumes m: "ggml_mul_mat tsz ctx a b = (Inr h, ctx')"
    and a: "tensors ctx a = Some ta" and b: "tensors ctx b = Some tb"
  shows "ggml_can_mul_mat ta tb \<and>
         (\<exists>t. tensors ctx' h = Some t \<and> type t = GGML_TYPE_F32 \<and>
              ne t = take (nat (min (n_dims ta) (n_dims tb))) [ne ta ! 1, ne tb ! 1, ne ta ! 2, ne tb ! 3]
                     @ replicate (GGML_MAX_DIMS - nat (min (n_dims ta) (n_dims tb))) 1)"
proof -
  let ?nd = "min (n_dims ta) (n_dims tb)"
  let ?nes = "[ne ta ! 1, ne tb ! 1, ne ta ! 2, ne tb ! 3]"
  from m a b have can: "ggml_can_mul_mat ta tb"
    by (auto simp: ggml_mul_mat_def get_tensor_def split: if_splits)
  obtain e c1 where res: "ggml_new_tensor_impl tsz ctx GGML_TYPE_F32 ?nd ?nes None = (e, c1)"
    by (cases "ggml_new_tensor_impl tsz ctx GGML_TYPE_F32 ?nd ?nes None")
  from m a b can res have "\<exists>r. e = Inr r"
    by (cases e) (simp_all add: ggml_mul_mat_def get_tensor_def ggml_new_tensor_def Let_def)
  then obtain r where e: "e = Inr r" by blast
  from new_tensor_impl_tensor [of tsz ctx GGML_TYPE_F32 ?nd ?nes None r c1] res e
  obtain t where t: "tensors c1 r = Some t" "type t = GGML_TYPE_F32" "n_dims t = ?nd"
    "ne t = take (nat ?nd) ?nes @ replicate (GGML_MAX_DIMS - nat ?nd) 1" "nat ?nd \<le> length ?nes"
    by auto
  from m a b can res e
  have s: "set_node tsz GGML_OP_MUL_MAT (grad ta \<noteq> None \<or> grad tb \<noteq> None) (Some a) (Some b) r c1
      = (Inr h, ctx')"
    by (simp add: ggml_mul_mat_def get_tensor_def ggml_new_tensor_def Let_def)
  from set_node_shape [OF s t(1), of ?nes] t
  have "h = r \<and> (\<exists>t'. tensors ctx' r = Some t' \<and> type t' = type t \<and> ne t' = ne t)"
    by auto
  with t can show ?thesis by auto
qed

text \<open>
  The shape of the result where the constructor gets it right: the operands have up to four
  dimensions with the extents above \<open>n_dims\<close> equal to 1 (\<open>dims_ok\<close>), and \<open>a\<close> has at least
  two dimensions or \<open>b\<close> has one row.
\<close>

lemma ggml_mul_mat_shape:
  assumes m: "ggml_mul_mat tsz ctx a b = (Inr h, ctx')"
    and a: "tensors ctx a = Some ta" and b: "tensors ctx b = Some tb"
    and da: "dims_ok ta" and db: "dims_ok tb"
    and c: "2 \<le> n_dims ta \<or> ne tb ! 1 = 1"
  shows "\<exists>t. tensors ctx' h = Some t \<and> type t = GGML_TYPE_F32 \<and>
             ne t = [ne ta ! 1, ne tb ! 1, ne ta ! 2, ne tb ! 3]"
proof -
  from ggml_mul_mat_result [OF m a b] obtain t where
    can: "ggml_can_mul_mat ta tb" and
    t: "tensors ctx' h = Some t" "type t = GGML_TYPE_F32"
      "ne t = take (nat (min (n_dims ta) (n_dims tb))) [ne ta ! 1, ne tb ! 1, ne ta ! 2, ne tb ! 3]
              @ replicate (GGML_MAX_DIMS - nat (min (n_dims ta) (n_dims tb))) 1"
    by blast
  from da have "n_dims ta = 1 \<or> n_dims ta = 2 \<or> n_dims ta = 3 \<or> n_dims ta = 4"
    by (auto simp: dims_ok_def)
  moreover from db have "n_dims tb = 1 \<or> n_dims tb = 2 \<or> n_dims tb = 3 \<or> n_dims tb = 4"
    by (auto simp: dims_ok_def)
  ultimately have "take (nat (min (n_dims ta) (n_dims tb))) [ne ta ! 1, ne tb ! 1, ne ta ! 2, ne tb ! 3]
              @ replicate (GGML_MAX_DIMS - nat (min (n_dims ta) (n_dims tb))) 1
            = [ne ta ! 1, ne tb ! 1, ne ta ! 2, ne tb ! 3]"
    using da db c can
    by (elim disjE) (simp_all add: dims_ok_def ggml_can_mul_mat_def GGML_MAX_DIMS_def
        replicate_numeral numeral_2_eq_2 numeral_3_eq_3)
  with t show ?thesis by simp
qed

text \<open>
  The kernel. Stores to distinct cells, each computed from cells that no store touches, leave in
  every cell written the value computed from the initial memory.
\<close>

lemma write_fold:
  assumes "distinct (map D js)"
    and "\<forall>j \<in> set js. D j \<notin> R"
    and "\<forall>j \<in> set js. \<forall>m m'. (\<forall>a \<in> R. m a = m' a) \<longrightarrow> V j m = V j m'"
  shows "(\<forall>j \<in> set js. fold (write_step D V) js m (D j) = V j m) \<and>
         (\<forall>a. a \<notin> set (map D js) \<longrightarrow> fold (write_step D V) js m a = m a)"
  using assms
proof (induction js arbitrary: m)
  case Nil
  show ?case by simp
next
  case (Cons j js)
  let ?m1 = "write_step D V j m"
  from Cons.prems have d: "distinct (map D js)" and out: "D j \<notin> set (map D js)"
    and ro: "\<forall>j \<in> set js. D j \<notin> R" and roj: "D j \<notin> R"
    and dep: "\<forall>j \<in> set js. \<forall>m m'. (\<forall>a \<in> R. m a = m' a) \<longrightarrow> V j m = V j m'"
    by auto
  note IH = Cons.IH [OF d ro dep, of ?m1]
  have agree: "\<forall>a \<in> R. ?m1 a = m a"
    using roj by (auto simp: write_step_def)
  have f: "fold (write_step D V) (j # js) m = fold (write_step D V) js ?m1" by simp
  show ?case
  proof (intro conjI ballI allI impI)
    fix j' assume j': "j' \<in> set (j # js)"
    show "fold (write_step D V) (j # js) m (D j') = V j' m"
    proof (cases "j' \<in> set js")
      case True
      with IH have "fold (write_step D V) js ?m1 (D j') = V j' ?m1" by blast
      moreover from dep True agree have "V j' ?m1 = V j' m" by blast
      ultimately show ?thesis using f by simp
    next
      case False
      with j' have "j' = j" by simp
      moreover from IH out have "fold (write_step D V) js ?m1 (D j) = ?m1 (D j)" by blast
      ultimately show ?thesis using f by (simp add: write_step_def)
    qed
  next
    fix a assume "a \<notin> set (map D (j # js))"
    then have a: "a \<notin> set (map D js)" "a \<noteq> D j" by auto
    from IH a(1) have "fold (write_step D V) js ?m1 a = ?m1 a" by blast
    moreover from a(2) have "?m1 a = m a" by (simp add: write_step_def)
    ultimately show "fold (write_step D V) (j # js) m a = m a" using f by simp
  qed
qed

lemma dot_cong:
  assumes "\<forall>i < nat n. m (x + 4 * of_nat i) = m' (x + 4 * of_nat i) \<and>
                         m (y + 4 * of_nat i) = m' (y + 4 * of_nat i)"
  shows "dot m n x y = dot m' n x y"
  unfolding dot_def using assms by (intro fold_cong) auto

text \<open>
  A successful COMPUTE call of the row-major kernel is the sequence of stores
  \<open>dst[mm_dst j] := dot(row mm_x j, row mm_y j)\<close> over the pairs of \<open>mm_index\<close>.
\<close>

lemma mul_mat_kernel_fold:
  assumes ok: "fst (ggml_compute_forward_mul_mat_f32 params s0 s1 dst ctx) = Inr ()"
    and c: "task params = GGML_TASK_COMPUTE"
  shows "ggml_compute_forward_mul_mat_f32 params s0 s1 dst ctx =
           (Inr (), ctx\<lparr>f32 := fold (write_step (mm_dst s0 dst)
                                      (\<lambda>j m. dot m (ne s0 ! 0) (mm_x s0 j) (mm_y s0 s1 j)))
                                 (mm_index params s0 s1) (f32 ctx)\<rparr>)"
proof -
  have step: "(\<lambda>(ir, ic). ggml_vec_dot_f32 (ne s0 ! 0) (mm_dst s0 dst (ir, ic)) (mm_x s0 (ir, ic))
                  (mm_y s0 s1 (ir, ic)))
      = write_step (mm_dst s0 dst) (\<lambda>j m. dot m (ne s0 ! 0) (mm_x s0 j) (mm_y s0 s1 j))"
    by (auto simp: fun_eq_iff write_step_def ggml_vec_dot_f32_def dot_def)
  have eq: "fold (write_step (mm_dst s0 dst) (\<lambda>j m. dot m (ne s0 ! 0) (mm_x s0 j) (mm_y s0 s1 j)))
              (mm_index params s0 s1) (f32 ctx) =
            fold (\<lambda>ir. fold (\<lambda>ic. ggml_vec_dot_f32 (ne s0 ! 0) (mm_dst s0 dst (ir, ic))
                    (mm_x s0 (ir, ic)) (mm_y s0 s1 (ir, ic))) (int_range 0 (ne s1 ! 1)))
              (int_range (c_div (ne s0 ! 1 * ne s0 ! 2 * ne s0 ! 3 + nth params - 1) (nth params) * ith params)
                 (min (c_div (ne s0 ! 1 * ne s0 ! 2 * ne s0 ! 3 + nth params - 1) (nth params) * ith params
                       + c_div (ne s0 ! 1 * ne s0 ! 2 * ne s0 ! 3 + nth params - 1) (nth params))
                    (ne s0 ! 1 * ne s0 ! 2 * ne s0 ! 3))) (f32 ctx)"
    unfolding step [symmetric] by (simp add: fold_product mm_index_def Let_def)
  define W where "W = fold (write_step (mm_dst s0 dst) (\<lambda>j m. dot m (ne s0 ! 0) (mm_x s0 j) (mm_y s0 s1 j)))
              (mm_index params s0 s1) (f32 ctx)"
  have unf: "ggml_compute_forward_mul_mat_f32 params s0 s1 dst ctx =
    (if ne s0 ! 2 \<noteq> ne s1 ! 2 \<or> ne s0 ! 3 \<noteq> ne s1 ! 3 \<or> ne dst ! 2 \<noteq> ne s1 ! 2 \<or> ne dst ! 3 \<noteq> ne s1 ! 3
       then (Inl Assert_failed, ctx)
     else if \<not> (uint (nb s0 ! 0) = 4 \<or> uint (nb s0 ! 1) = 4) then (Inl Assert_failed, ctx)
     else if uint (nb dst ! 0) \<noteq> 4 \<or> \<not> uint (nb dst ! 0) \<le> uint (nb dst ! 1)
            \<or> \<not> uint (nb dst ! 1) \<le> uint (nb dst ! 2) \<or> \<not> uint (nb dst ! 2) \<le> uint (nb dst ! 3)
       then (Inl Assert_failed, ctx)
     else if ne dst ! 0 \<noteq> ne s0 ! 1 \<or> ne dst ! 1 \<noteq> ne s1 ! 1 \<or> ne dst ! 2 \<noteq> ne s0 ! 2 \<or> ne dst ! 3 \<noteq> ne s0 ! 3
       then (Inl Assert_failed, ctx)
     else if is_init_or_finalize params then
       (if uint (nb s0 ! 1) \<ge> uint (nb s0 ! 0) then (Inr (), ctx) else (Inl Not_modelled, ctx))
     else if uint (nb s0 ! 1) \<ge> uint (nb s0 ! 0) then
       (if uint (nb s1 ! 0) \<noteq> 4 then (Inl Assert_failed, ctx) else (Inr (), ctx\<lparr>f32 := W\<rparr>))
     else (Inl Not_modelled, ctx))"
    unfolding W_def eq
    unfolding ggml_compute_forward_mul_mat_f32_def Let_def
      mm_dst_def mm_x_def mm_y_def mm_i01_def mm_i02_def mm_i03_def prod.case
    by (rule refl)
  from ok c show ?thesis
    unfolding W_def [symmetric] unf
    by (auto simp: is_init_or_finalize_def split: if_splits)
qed


text \<open>
  If the cells written are distinct and none of them is read, a successful COMPUTE call leaves
  in the cell of every pair \<open>(ir, ic)\<close> of the thread the dot product of row \<open>ir\<close> of \<open>src0\<close> and row
  \<open>ic\<close> of \<open>src1\<close>, taken over the memory before the call.
\<close>

lemma mul_mat_kernel_dot:
  assumes ok: "fst (ggml_compute_forward_mul_mat_f32 params s0 s1 dst ctx) = Inr ()"
    and c: "task params = GGML_TASK_COMPUTE"
    and d: "distinct (map (mm_dst s0 dst) (mm_index params s0 s1))"
    and r: "set (map (mm_dst s0 dst) (mm_index params s0 s1)) \<inter> set (mm_reads params s0 s1) = {}"
    and j: "j \<in> set (mm_index params s0 s1)"
  shows "f32 (snd (ggml_compute_forward_mul_mat_f32 params s0 s1 dst ctx)) (mm_dst s0 dst j)
           = dot (f32 ctx) (ne s0 ! 0) (mm_x s0 j) (mm_y s0 s1 j)"
proof -
  let ?R = "set (mm_reads params s0 s1)"
  let ?V = "\<lambda>j m. dot m (ne s0 ! 0) (mm_x s0 j) (mm_y s0 s1 j)"
  have ro: "\<forall>j \<in> set (mm_index params s0 s1). mm_dst s0 dst j \<notin> ?R"
    using r by auto
  have dep: "\<forall>j \<in> set (mm_index params s0 s1). \<forall>m m'. (\<forall>a \<in> ?R. m a = m' a) \<longrightarrow> ?V j m = ?V j m'"
  proof (intro ballI allI impI)
    fix j and m m' :: "size_t \<Rightarrow> real"
    assume j: "j \<in> set (mm_index params s0 s1)" and eq: "\<forall>a \<in> ?R. m a = m' a"
    have "\<forall>i < nat (ne s0 ! 0). mm_x s0 j + 4 * of_nat i \<in> ?R \<and> mm_y s0 s1 j + 4 * of_nat i \<in> ?R"
      using j unfolding mm_reads_def by (fastforce intro!: bexI [of _ j])
    with eq show "?V j m = ?V j m'" by (intro dot_cong) auto
  qed
  from write_fold [OF d ro dep] j mul_mat_kernel_fold [OF ok c] show ?thesis by simp
qed

text \<open>For a matrix \<open>src0\<close> the row number is the index in dimension 1.\<close>

lemma mm_row_2d:
  assumes "0 \<le> ir" "ir < ne s0 ! 1" "ne s0 ! 2 = 1"
  shows "mm_i01 s0 ir = ir \<and> mm_i02 s0 ir = 0 \<and> mm_i03 s0 ir = 0"
  using assms by (simp add: mm_i01_def mm_i02_def mm_i03_def c_div_def)

text \<open>
  The lemma at the tensors of scenario S2 and the pair \<open>(ir, ic) = (1, 3)\<close>: the cell
  \<open>dst[3][1]\<close> receives the dot product of row 1 of \<open>a\<close> and row 3 of \<open>b\<close>.
\<close>

lemma mul_mat_kernel_dot_S2:
  "f32 (snd (ggml_compute_forward_mul_mat_f32
               \<lparr>task = GGML_TASK_COMPUTE, ith = 0, nth = 1, wsize = 0, wdata = None\<rparr>
               (f32_matrix 192 3 2) (f32_matrix 416 3 4) (f32_matrix 656 2 4) ctx)) (656 + 4 * 1 + 8 * 3)
     = f32 ctx (192 + 12) * f32 ctx (416 + 36) + f32 ctx (192 + 16) * f32 ctx (416 + 40)
       + f32 ctx (192 + 20) * f32 ctx (416 + 44)"
  using mul_mat_kernel_dot [where params = "\<lparr>task = GGML_TASK_COMPUTE, ith = 0, nth = 1, wsize = 0, wdata = None\<rparr>"
      and ?s0.0 = "f32_matrix 192 3 2" and ?s1.0 = "f32_matrix 416 3 4" and dst = "f32_matrix 656 2 4"
      and ctx = ctx and j = "(1, 3)"]
  by (simp add: f32_matrix_def ggml_compute_forward_mul_mat_f32_def is_init_or_finalize_def Let_def
      mm_index_def mm_reads_def mm_dst_def mm_x_def mm_y_def mm_i01_def mm_i02_def mm_i03_def
      dot_def c_div_def int_range_def upt_conv_Cons)

lemmas mul_mat_defs =
  ggml_mul_mat_def ggml_can_mul_mat_def ggml_compute_forward_mul_mat_f32_def ggml_vec_dot_f32_def
  mul_mat_work_size_def fill_def read_all_def ggml_set_f32_1d_def

text \<open>
  Claim C1, the shape. For a vector \<open>a\<close> (\<open>ne = {3}\<close>, \<open>n_dims = 1\<close>, at 32) and a matrix \<open>b\<close>
  (\<open>ne = {3, 4}\<close>, \<open>n_dims = 2\<close>, at 240), which satisfy \<^verbatim>\<open>ggml_can_mul_mat\<close>, the result of
  \<^verbatim>\<open>ggml_mul_mat\<close> (at 480) is created with \<^verbatim>\<open>MIN(a->n_dims, b->n_dims) = 1\<close> dimensions, so only
  \<open>a.ne[1]\<close> is copied from the extents and the shape is \<open>{1, 1, 1, 1}\<close> instead of
  \<open>{a.ne[1], b.ne[1], a.ne[2], b.ne[3]} = {1, 4, 1, 1}\<close>. The kernel then fails its own
  \<^verbatim>\<open>assert(ne1 == ne11)\<close> on this tensor.
\<close>

theorem mul_mat_vector_matrix_shape:
  "fst mul_mat_vec_ex = Inr (32, 240, 480) \<and>
   map_option (\<lambda>t. (n_dims t, ne t)) (tensors (snd mul_mat_vec_ex) 32) = Some (1, [3, 1, 1, 1]) \<and>
   map_option (\<lambda>t. (n_dims t, ne t)) (tensors (snd mul_mat_vec_ex) 240) = Some (2, [3, 4, 1, 1]) \<and>
   map_option (\<lambda>t. (type t, n_dims t, ne t)) (tensors (snd mul_mat_vec_ex) 480)
     = Some (GGML_TYPE_F32, 1, [1, 1, 1, 1]) \<and>
   fst (ggml_compute_forward
          \<lparr>task = GGML_TASK_COMPUTE, ith = 0, nth = 1, wsize = 0, wdata = None\<rparr> 480
          (snd mul_mat_vec_ex)) = Inl Assert_failed"
  by (simp add: mul_mat_vec_ex_def mul_mat_defs ctor_defs graph_defs compute_defs Let_def)

text \<open>
  Scenario S2 by evaluation, for any prior content of the arena, with the default eight
  threads and with one: the result has shape \<open>{2, 4, 1, 1}\<close> and holds
  \<open>[[1,4],[2,5],[3,6],[6,15]]\<close>.
\<close>

lemma mul_mat_scenario_S2:
  "mul_mat_ex 0 m = Some (Inr ([2, 4, 1, 1], map Inr [1, 4, 2, 5, 3, 6, 6, 15])) \<and>
   mul_mat_ex 1 m = Some (Inr ([2, 4, 1, 1], map Inr [1, 4, 2, 5, 3, 6, 6, 15]))"
  by (simp add: mul_mat_ex_def mul_mat_defs ctor_defs graph_defs compute_defs Let_def)

end
